theory Spec2Isabelle
  imports Complex_Main "HOL-Library.Log_Nat"
begin

section \<open>The cost-basis ledger of \<^verbatim>\<open>investments/investment.py\<close> and \<^verbatim>\<open>investments/portfolio.py\<close>\<close>

text \<open>
  The two classes are embedded with explicit state passing. A method that mutates its
  object takes the object and returns the object as the call leaves it; a method that can
  raise returns a pair of the outcome (\<open>Inl\<close> the exception, \<open>Inr\<close> the returned value)
  and the object as it is when the method returns or raises, so that what a raising call
  has already mutated stays visible.

  The methods are embedded twice. In this first part Python's numbers are idealised as
  \<open>real\<close>, as the data model of the specification states quantities, costs and prices:
  it carries the claims about control flow, the records of the audit trail and the
  expressions the code evaluates (C1 to C3, C5 to C8, C10). The second part embeds the
  same methods over the binary64 numbers of Python's \<^verbatim>\<open>float\<close>, with rounding,
  overflow and NaN: it carries the two claims whose truth depends on them (C4, C9).
\<close>

subsection \<open>Exceptions\<close>

text \<open>
  Every \<^verbatim>\<open>raise\<close> of the two classes is a \<^verbatim>\<open>ValueError\<close> told apart by its message;
  the constructors carry the names the specification gives the error kinds:
  \<^item> \<open>InsufficientHoldings\<close>: "Cannot sell more than the current quantity owned."
    (\<^verbatim>\<open>Investment.sell\<close>) and "Not enough ... to complete the conversion."
    (\<^verbatim>\<open>Portfolio.handle_conversion\<close>);
  \<^item> \<open>MissingConversionTarget\<close>: "Conversion requires a 'to_asset' parameter.";
  \<^item> \<open>UnknownAction\<close>: "Invalid action. Must be 'buy', 'sell', 'convert', or 'deposit'.";
  \<^item> \<open>NoHoldings\<close>: "No holdings for asset ... to convert from.";
  \<^item> \<open>ZeroDivisionError\<close>: raised by Python itself at the division
    \<^verbatim>\<open>total_cost / from_investment.avg_price\<close> when the divisor is zero.
  No statement of the two classes raises for a non-positive quantity.
\<close>

datatype error =
    InsufficientHoldings
  | MissingConversionTarget
  | UnknownAction
  | NoHoldings
  | ZeroDivisionError

subsection \<open>\<^verbatim>\<open>class Investment\<close>\<close>

record investment =
  quantity :: real
  total_cost :: real
  realized_profit_loss :: "real list"

text \<open>\<^verbatim>\<open>Investment.__init__\<close>\<close>

definition Investment :: investment where
  "Investment = \<lparr>quantity = 0, total_cost = 0, realized_profit_loss = []\<rparr>"

text \<open>The property \<^verbatim>\<open>avg_price\<close>.\<close>

definition avg_price :: "investment \<Rightarrow> real" where
  "avg_price self =
     (if quantity self = 0 then 0 else total_cost self / quantity self)"

text \<open>
  \<^verbatim>\<open>Investment.buy(price, quantity, fee)\<close>. The parameter \<^verbatim>\<open>quantity\<close> is written
  \<open>qty\<close> here and below, the name \<open>quantity\<close> being the field.
\<close>

definition buy :: "investment \<Rightarrow> real \<Rightarrow> real \<Rightarrow> real \<Rightarrow> investment" where
  "buy self price qty fee =
     (let purchase_cost = price * qty + fee
      in self\<lparr>total_cost := total_cost self + purchase_cost,
              quantity := quantity self + qty\<rparr>)"

text \<open>\<^verbatim>\<open>Investment.sell(price, quantity, fee)\<close>: the check comes before any assignment.\<close>

definition sell ::
  "investment \<Rightarrow> real \<Rightarrow> real \<Rightarrow> real \<Rightarrow> (error + real) \<times> investment" where
  "sell self price qty fee =
     (if qty > quantity self then (Inl InsufficientHoldings, self)
      else
        let sale_proceeds = price * qty - fee;
            overhead_amount = avg_price self * qty;
            profit_loss = sale_proceeds - overhead_amount
        in (Inr profit_loss,
            self\<lparr>total_cost := total_cost self - overhead_amount,
                 quantity := quantity self - qty,
                 realized_profit_loss := realized_profit_loss self @ [profit_loss]\<rparr>))"

subsection \<open>\<^verbatim>\<open>class Portfolio\<close>\<close>

text \<open>
  One dictionary appended to \<^verbatim>\<open>self.transactions\<close>. The timestamp is passed through
  and never inspected, so its type is a parameter. The records written by
  \<^verbatim>\<open>handle_conversion\<close> have no key \<^verbatim>\<open>to_asset\<close> (\<open>tx_to_asset = None\<close>); those
  written by \<^verbatim>\<open>add_transaction\<close> have it, with the value of the parameter
  (\<open>tx_to_asset = Some v\<close>, where \<open>v = None\<close> is Python's \<^verbatim>\<open>None\<close>).
\<close>

record 't transaction =
  tx_timestamp :: 't
  tx_action :: string
  tx_asset :: string
  tx_to_asset :: "string option option"
  tx_price :: real
  tx_quantity :: real
  tx_fee :: real
  tx_transaction_currency :: string

record 't portfolio =
  investments :: "string \<rightharpoonup> investment"
  base_currency :: string
  transactions :: "'t transaction list"

text \<open>\<^verbatim>\<open>Portfolio.__init__(base_currency)\<close>\<close>

definition Portfolio :: "string \<Rightarrow> 't portfolio" where
  "Portfolio bc = \<lparr>investments = Map.empty, base_currency = bc, transactions = []\<rparr>"

text \<open>
  \<^verbatim>\<open>Portfolio.handle_conversion\<close>. \<^verbatim>\<open>Investment\<close> defines neither \<^verbatim>\<open>__bool__\<close> nor
  \<^verbatim>\<open>__len__\<close>, so \<^verbatim>\<open>not from_investment\<close> holds exactly when the dictionary has
  no entry. The dictionary holds each object under one key only, so the object
  \<^verbatim>\<open>from_investment\<close> is at every moment the entry at \<open>from_asset\<close>: when
  \<open>to_asset = from_asset\<close> the buy mutates that same object, and the price of the
  sell record, read after the buy, is read from the entry at \<open>from_asset\<close> of the
  final dictionary (which is present: \<open>the\<close> is applied to a \<open>Some\<close> there).
  The local \<^verbatim>\<open>total_cost\<close> is written \<open>cost\<close>.
\<close>

definition handle_conversion ::
  "'t portfolio \<Rightarrow> string \<Rightarrow> string \<Rightarrow> real \<Rightarrow> real \<Rightarrow> real \<Rightarrow> 't
     \<Rightarrow> (error + unit) \<times> 't portfolio" where
  "handle_conversion self from_asset to_asset qty price_in_base fee_in_base timestamp =
     (case investments self from_asset of
        None \<Rightarrow> (Inl NoHoldings, self)
      | Some from_investment \<Rightarrow>
          let cost = price_in_base * qty + fee_in_base
          in if avg_price from_investment = 0 then (Inl ZeroDivisionError, self)
             else
               let quantity_to_sell = cost / avg_price from_investment
               in if quantity_to_sell > quantity from_investment
                  then (Inl InsufficientHoldings, self)
                  else
                    (case sell from_investment (avg_price from_investment)
                            quantity_to_sell fee_in_base of
                       (Inl e, sold) \<Rightarrow>
                         (Inl e, self\<lparr>investments := (investments self)(from_asset \<mapsto> sold)\<rparr>)
                     | (Inr profit_loss_sell, sold) \<Rightarrow>
                         let invs1 = (investments self)(from_asset \<mapsto> sold);
                             to_investment =
                               (case invs1 to_asset of None \<Rightarrow> Investment | Some i \<Rightarrow> i);
                             invs2 = invs1(to_asset \<mapsto> buy to_investment price_in_base qty 0);
                             sell_record =
                               \<lparr>tx_timestamp = timestamp, tx_action = ''sell'',
                                tx_asset = from_asset, tx_to_asset = None,
                                tx_price = avg_price (the (invs2 from_asset)),
                                tx_quantity = quantity_to_sell, tx_fee = fee_in_base,
                                tx_transaction_currency = base_currency self\<rparr>;
                             buy_record =
                               \<lparr>tx_timestamp = timestamp, tx_action = ''buy'',
                                tx_asset = to_asset, tx_to_asset = None,
                                tx_price = price_in_base,
                                tx_quantity = qty, tx_fee = 0,
                                tx_transaction_currency = base_currency self\<rparr>
                         in (Inr (),
                             self\<lparr>investments := invs2,
                                  transactions :=
                                    transactions self @ [sell_record, buy_record]\<rparr>)))"

text \<open>
  \<^verbatim>\<open>Portfolio.add_transaction\<close>. The defaults of the source (\<^verbatim>\<open>fee=0\<close>,
  \<^verbatim>\<open>transaction_currency="SEK"\<close>, \<^verbatim>\<open>timestamp=None\<close>, \<^verbatim>\<open>to_asset=None\<close>) are
  passed explicitly. \<^verbatim>\<open>not to_asset\<close> holds for \<^verbatim>\<open>None\<close> and for the empty string.
  The get-or-create of the first four statements comes before the dispatch on the action;
  the record is appended only when the dispatch has not raised.
\<close>

definition add_transaction ::
  "'t portfolio \<Rightarrow> string \<Rightarrow> string \<Rightarrow> real \<Rightarrow> real \<Rightarrow> real \<Rightarrow> string \<Rightarrow> 't
     \<Rightarrow> string option \<Rightarrow> (error + unit) \<times> 't portfolio" where
  "add_transaction self action asset price qty fee transaction_currency timestamp to_asset =
     (let price_in_base = price;
          fee_in_base = fee;
          investment =
            (case investments self asset of None \<Rightarrow> Investment | Some i \<Rightarrow> i);
          self1 =
            (case investments self asset of
               None \<Rightarrow> self\<lparr>investments := (investments self)(asset \<mapsto> investment)\<rparr>
             | Some i \<Rightarrow> self);
          dispatched =
            (if action = ''buy'' then
               (Inr (),
                self1\<lparr>investments :=
                  (investments self1)(asset \<mapsto> buy investment price_in_base qty fee_in_base)\<rparr>)
             else if action = ''sell'' then
               (case sell investment price_in_base qty fee_in_base of
                  (Inl e, i) \<Rightarrow>
                    (Inl e, self1\<lparr>investments := (investments self1)(asset \<mapsto> i)\<rparr>)
                | (Inr profit_loss, i) \<Rightarrow>
                    (Inr (), self1\<lparr>investments := (investments self1)(asset \<mapsto> i)\<rparr>))
             else if action = ''deposit'' then
               (Inr (),
                self1\<lparr>investments := (investments self1)(asset \<mapsto> buy investment 0 qty 0)\<rparr>)
             else if action = ''convert'' then
               (case to_asset of
                  None \<Rightarrow> (Inl MissingConversionTarget, self1)
                | Some t \<Rightarrow>
                    if t = [] then (Inl MissingConversionTarget, self1)
                    else handle_conversion self1 asset t qty price_in_base fee_in_base
                           timestamp)
             else (Inl UnknownAction, self1))
      in case dispatched of
           (Inl e, self2) \<Rightarrow> (Inl e, self2)
         | (Inr u, self2) \<Rightarrow>
             (Inr (),
              self2\<lparr>transactions := transactions self2 @
                [\<lparr>tx_timestamp = timestamp, tx_action = action, tx_asset = asset,
                  tx_to_asset = Some to_asset, tx_price = price_in_base,
                  tx_quantity = qty, tx_fee = fee_in_base,
                  tx_transaction_currency = transaction_currency\<rparr>]\<rparr>))"

text \<open>\<^verbatim>\<open>Portfolio.get_investment\<close>\<close>

definition get_investment :: "'t portfolio \<Rightarrow> string \<Rightarrow> investment option" where
  "get_investment self asset = investments self asset"


subsection \<open>Concrete ledgers\<close>

text \<open>
  The ledger of the specification's conversion scenario: one position of 1 BTC bought
  for 1000, in a portfolio whose timestamps are optional numbers.
\<close>

definition btc_ledger :: "nat option portfolio" where
  "btc_ledger =
     \<lparr>investments =
        [''BTC'' \<mapsto> \<lparr>quantity = 1, total_cost = 1000, realized_profit_loss = []\<rparr>],
      base_currency = ''SEK'', transactions = []\<rparr>"

section \<open>The same methods in the code's own arithmetic\<close>

text \<open>
  Whether the fee is realized exactly (C4) and whether a quantity can leave the
  non-negative numbers (C9) depends on rounding, on overflow and on NaN, which the
  reals do not have. For these two claims the methods are embedded a second time, line
  by line as above, over the binary64 numbers of Python's \<^verbatim>\<open>float\<close>; the arguments
  \<^verbatim>\<open>price\<close>, \<^verbatim>\<open>quantity\<close> and \<^verbatim>\<open>fee\<close> are floats, as their annotations say
  and as \<^verbatim>\<open>process_coinbase_csv\<close> passes them. The names carry the suffix \<open>_f\<close>.
\<close>

subsection \<open>Binary64\<close>

text \<open>
  A float is a finite number, an infinity or NaN. A finite float is written as the
  rational it denotes; the two zeros are one value \<open>Finite 0\<close>: they compare equal, the
  classes never print or copy a sign, and the only operation that tells them apart, a
  division by zero, raises \<^verbatim>\<open>ZeroDivisionError\<close> in Python before it has a result.
  The \<^verbatim>\<open>int\<close> 0 of \<^verbatim>\<open>Investment.__init__\<close>, of the default fee and of
  \<^verbatim>\<open>avg_price\<close> behaves in every operation of the classes as the float zero, and is
  \<open>Finite 0\<close> as well.
\<close>

datatype pyfloat = Finite rat | PInf | NInf | NaN

text \<open>
  The binary exponent of a non-zero rational: \<open>2 powi expo x \<le> \<bar>x\<bar> < 2 powi (expo x + 1)\<close>
  (lemma \<open>expo_bounds\<close>), computed from the bit lengths of numerator and denominator.
\<close>

definition expo :: "rat \<Rightarrow> int" where
  "expo x =
     (let (n, d) = quotient_of \<bar>x\<bar>;
          k = bitlen n - bitlen d
      in if 2 powi k \<le> \<bar>x\<bar> then k else k - 1)"

text \<open>The nearest integer, a tie going to the even one.\<close>

definition round_half_even :: "rat \<Rightarrow> int" where
  "round_half_even x =
     (let f = \<lfloor>x\<rfloor>; d = x - of_int f
      in if d < 1 / 2 then f
         else if 1 / 2 < d then f + 1
         else if even f then f else f + 1)"

text \<open>
  Rounding to nearest, ties to even, of an exact result: 53 significant bits, the
  subnormal numbers as multiples of \<open>2 powi - 1074\<close>, and overflow to an infinity once
  the rounded value reaches \<open>2 ^ 1024\<close>.
\<close>

definition rnd :: "rat \<Rightarrow> pyfloat" where
  "rnd x =
     (if x = 0 then Finite 0
      else
        let q = max (expo x - 52) (- 1074);
            y = of_int (round_half_even (x / 2 powi q)) * 2 powi q
        in if 2 ^ 1024 \<le> \<bar>y\<bar> then (if 0 < x then PInf else NInf) else Finite y)"

text \<open>
  The float a decimal literal or \<^verbatim>\<open>float(...)\<close> of a decimal string denotes:
  \<open>py_float (1 / 10)\<close> is Python's \<^verbatim>\<open>0.1\<close>.
\<close>

definition py_float :: "rat \<Rightarrow> pyfloat" where
  "py_float r = rnd r"

text \<open>
  \<open>Finite r\<close> stands for a float only when \<open>r\<close> is one, that is when rounding
  leaves it alone. Every operation below returns such values whatever its arguments
  (lemma \<open>is_binary64_results\<close>), and so does \<open>py_float\<close>; a float is written
  \<open>py_float r\<close> or as the result of operations. The theorems hold for all values of the type.
\<close>

definition is_binary64 :: "pyfloat \<Rightarrow> bool" where
  "is_binary64 a = (case a of Finite r \<Rightarrow> rnd r = Finite r | _ \<Rightarrow> True)"

fun fneg :: "pyfloat \<Rightarrow> pyfloat" where
  "fneg (Finite x) = Finite (- x)"
| "fneg PInf = NInf"
| "fneg NInf = PInf"
| "fneg NaN = NaN"

text \<open>Python's \<^verbatim>\<open>+\<close>, \<^verbatim>\<open>-\<close> and \<^verbatim>\<open>*\<close> on floats: they never raise.\<close>

fun fadd :: "pyfloat \<Rightarrow> pyfloat \<Rightarrow> pyfloat" where
  "fadd (Finite x) (Finite y) = rnd (x + y)"
| "fadd NaN b = NaN"
| "fadd a NaN = NaN"
| "fadd PInf NInf = NaN"
| "fadd NInf PInf = NaN"
| "fadd PInf b = PInf"
| "fadd NInf b = NInf"
| "fadd a PInf = PInf"
| "fadd a NInf = NInf"

definition fsub :: "pyfloat \<Rightarrow> pyfloat \<Rightarrow> pyfloat" where
  "fsub a b = fadd a (fneg b)"

fun fmul :: "pyfloat \<Rightarrow> pyfloat \<Rightarrow> pyfloat" where
  "fmul (Finite x) (Finite y) = rnd (x * y)"
| "fmul NaN b = NaN"
| "fmul a NaN = NaN"
| "fmul (Finite x) PInf = (if x = 0 then NaN else if 0 < x then PInf else NInf)"
| "fmul (Finite x) NInf = (if x = 0 then NaN else if 0 < x then NInf else PInf)"
| "fmul PInf (Finite y) = (if y = 0 then NaN else if 0 < y then PInf else NInf)"
| "fmul NInf (Finite y) = (if y = 0 then NaN else if 0 < y then NInf else PInf)"
| "fmul PInf PInf = PInf"
| "fmul PInf NInf = NInf"
| "fmul NInf PInf = NInf"
| "fmul NInf NInf = PInf"

text \<open>
  Python's \<^verbatim>\<open>/\<close> on floats with a non-zero divisor. With a zero divisor Python
  raises \<^verbatim>\<open>ZeroDivisionError\<close>: the methods below test the divisor first and never
  apply \<open>fdiv\<close> to it, so the value given here for that case is never used.
\<close>

fun fdiv :: "pyfloat \<Rightarrow> pyfloat \<Rightarrow> pyfloat" where
  "fdiv (Finite x) (Finite y) = (if y = 0 then NaN else rnd (x / y))"
| "fdiv NaN b = NaN"
| "fdiv a NaN = NaN"
| "fdiv (Finite x) PInf = Finite 0"
| "fdiv (Finite x) NInf = Finite 0"
| "fdiv PInf (Finite y) = (if y = 0 then NaN else if 0 < y then PInf else NInf)"
| "fdiv NInf (Finite y) = (if y = 0 then NaN else if 0 < y then NInf else PInf)"
| "fdiv PInf b = NaN"
| "fdiv NInf b = NaN"

text \<open>Python's \<^verbatim>\<open><\<close> and \<^verbatim>\<open><=\<close>: every comparison with NaN is false.\<close>

fun fless :: "pyfloat \<Rightarrow> pyfloat \<Rightarrow> bool" where
  "fless (Finite x) (Finite y) = (x < y)"
| "fless NaN b = False"
| "fless a NaN = False"
| "fless a NInf = False"
| "fless PInf b = False"
| "fless NInf b = True"
| "fless a PInf = True"

fun fle :: "pyfloat \<Rightarrow> pyfloat \<Rightarrow> bool" where
  "fle (Finite x) (Finite y) = (x \<le> y)"
| "fle NaN b = False"
| "fle a NaN = False"
| "fle NInf b = True"
| "fle a PInf = True"
| "fle a NInf = False"
| "fle PInf b = False"

subsection \<open>\<^verbatim>\<open>class Investment\<close> over floats\<close>

record investment_f =
  quantity_f :: pyfloat
  total_cost_f :: pyfloat
  realized_profit_loss_f :: "pyfloat list"

definition Investment_f :: investment_f where
  "Investment_f =
     \<lparr>quantity_f = Finite 0, total_cost_f = Finite 0, realized_profit_loss_f = []\<rparr>"

text \<open>\<^verbatim>\<open>self.quantity == 0\<close> is false for NaN and for the infinities.\<close>

definition avg_price_f :: "investment_f \<Rightarrow> pyfloat" where
  "avg_price_f self =
     (if quantity_f self = Finite 0 then Finite 0
      else fdiv (total_cost_f self) (quantity_f self))"

definition buy_f :: "investment_f \<Rightarrow> pyfloat \<Rightarrow> pyfloat \<Rightarrow> pyfloat \<Rightarrow> investment_f" where
  "buy_f self price qty fee =
     (let purchase_cost = fadd (fmul price qty) fee
      in self\<lparr>total_cost_f := fadd (total_cost_f self) purchase_cost,
              quantity_f := fadd (quantity_f self) qty\<rparr>)"

text \<open>\<^verbatim>\<open>quantity > self.quantity\<close> is \<open>fless (quantity_f self) qty\<close>.\<close>

definition sell_f ::
  "investment_f \<Rightarrow> pyfloat \<Rightarrow> pyfloat \<Rightarrow> pyfloat \<Rightarrow> (error + pyfloat) \<times> investment_f" where
  "sell_f self price qty fee =
     (if fless (quantity_f self) qty then (Inl InsufficientHoldings, self)
      else
        let sale_proceeds = fsub (fmul price qty) fee;
            overhead_amount = fmul (avg_price_f self) qty;
            profit_loss = fsub sale_proceeds overhead_amount
        in (Inr profit_loss,
            self\<lparr>total_cost_f := fsub (total_cost_f self) overhead_amount,
                 quantity_f := fsub (quantity_f self) qty,
                 realized_profit_loss_f := realized_profit_loss_f self @ [profit_loss]\<rparr>))"

subsection \<open>\<^verbatim>\<open>class Portfolio\<close> over floats\<close>

record 't transaction_f =
  txf_timestamp :: 't
  txf_action :: string
  txf_asset :: string
  txf_to_asset :: "string option option"
  txf_price :: pyfloat
  txf_quantity :: pyfloat
  txf_fee :: pyfloat
  txf_transaction_currency :: string

record 't portfolio_f =
  investments_f :: "string \<rightharpoonup> investment_f"
  base_currency_f :: string
  transactions_f :: "'t transaction_f list"

definition Portfolio_f :: "string \<Rightarrow> 't portfolio_f" where
  "Portfolio_f bc = \<lparr>investments_f = Map.empty, base_currency_f = bc, transactions_f = []\<rparr>"

text \<open>
  \<^verbatim>\<open>Portfolio.handle_conversion\<close>. The division \<^verbatim>\<open>total_cost / from_investment.avg_price\<close>
  raises exactly when the average price is a zero; a NaN or infinite average price divides.
\<close>

definition handle_conversion_f ::
  "'t portfolio_f \<Rightarrow> string \<Rightarrow> string \<Rightarrow> pyfloat \<Rightarrow> pyfloat \<Rightarrow> pyfloat \<Rightarrow> 't
     \<Rightarrow> (error + unit) \<times> 't portfolio_f" where
  "handle_conversion_f self from_asset to_asset qty price_in_base fee_in_base timestamp =
     (case investments_f self from_asset of
        None \<Rightarrow> (Inl NoHoldings, self)
      | Some from_investment \<Rightarrow>
          let cost = fadd (fmul price_in_base qty) fee_in_base
          in if avg_price_f from_investment = Finite 0 then (Inl ZeroDivisionError, self)
             else
               let quantity_to_sell = fdiv cost (avg_price_f from_investment)
               in if fless (quantity_f from_investment) quantity_to_sell
                  then (Inl InsufficientHoldings, self)
                  else
                    (case sell_f from_investment (avg_price_f from_investment)
                            quantity_to_sell fee_in_base of
                       (Inl e, sold) \<Rightarrow>
                         (Inl e,
                          self\<lparr>investments_f := (investments_f self)(from_asset \<mapsto> sold)\<rparr>)
                     | (Inr profit_loss_sell, sold) \<Rightarrow>
                         let invs1 = (investments_f self)(from_asset \<mapsto> sold);
                             to_investment =
                               (case invs1 to_asset of None \<Rightarrow> Investment_f | Some i \<Rightarrow> i);
                             invs2 = invs1(to_asset \<mapsto>
                                       buy_f to_investment price_in_base qty (Finite 0));
                             sell_record =
                               \<lparr>txf_timestamp = timestamp, txf_action = ''sell'',
                                txf_asset = from_asset, txf_to_asset = None,
                                txf_price = avg_price_f (the (invs2 from_asset)),
                                txf_quantity = quantity_to_sell, txf_fee = fee_in_base,
                                txf_transaction_currency = base_currency_f self\<rparr>;
                             buy_record =
                               \<lparr>txf_timestamp = timestamp, txf_action = ''buy'',
                                txf_asset = to_asset, txf_to_asset = None,
                                txf_price = price_in_base,
                                txf_quantity = qty, txf_fee = Finite 0,
                                txf_transaction_currency = base_currency_f self\<rparr>
                         in (Inr (),
                             self\<lparr>investments_f := invs2,
                                  transactions_f :=
                                    transactions_f self @ [sell_record, buy_record]\<rparr>)))"

text \<open>\<^verbatim>\<open>Portfolio.add_transaction\<close>, as above.\<close>

definition add_transaction_f ::
  "'t portfolio_f \<Rightarrow> string \<Rightarrow> string \<Rightarrow> pyfloat \<Rightarrow> pyfloat \<Rightarrow> pyfloat \<Rightarrow> string \<Rightarrow> 't
     \<Rightarrow> string option \<Rightarrow> (error + unit) \<times> 't portfolio_f" where
  "add_transaction_f self action asset price qty fee transaction_currency timestamp to_asset =
     (let price_in_base = price;
          fee_in_base = fee;
          investment =
            (case investments_f self asset of None \<Rightarrow> Investment_f | Some i \<Rightarrow> i);
          self1 =
            (case investments_f self asset of
               None \<Rightarrow> self\<lparr>investments_f := (investments_f self)(asset \<mapsto> investment)\<rparr>
             | Some i \<Rightarrow> self);
          dispatched =
            (if action = ''buy'' then
               (Inr (),
                self1\<lparr>investments_f :=
                  (investments_f self1)(asset \<mapsto>
                     buy_f investment price_in_base qty fee_in_base)\<rparr>)
             else if action = ''sell'' then
               (case sell_f investment price_in_base qty fee_in_base of
                  (Inl e, i) \<Rightarrow>
                    (Inl e, self1\<lparr>investments_f := (investments_f self1)(asset \<mapsto> i)\<rparr>)
                | (Inr profit_loss, i) \<Rightarrow>
                    (Inr (), self1\<lparr>investments_f := (investments_f self1)(asset \<mapsto> i)\<rparr>))
             else if action = ''deposit'' then
               (Inr (),
                self1\<lparr>investments_f :=
                  (investments_f self1)(asset \<mapsto>
                     buy_f investment (Finite 0) qty (Finite 0))\<rparr>)
             else if action = ''convert'' then
               (case to_asset of
                  None \<Rightarrow> (Inl MissingConversionTarget, self1)
                | Some t \<Rightarrow>
                    if t = [] then (Inl MissingConversionTarget, self1)
                    else handle_conversion_f self1 asset t qty price_in_base fee_in_base
                           timestamp)
             else (Inl UnknownAction, self1))
      in case dispatched of
           (Inl e, self2) \<Rightarrow> (Inl e, self2)
         | (Inr u, self2) \<Rightarrow>
             (Inr (),
              self2\<lparr>transactions_f := transactions_f self2 @
                [\<lparr>txf_timestamp = timestamp, txf_action = action, txf_asset = asset,
                  txf_to_asset = Some to_asset, txf_price = price_in_base,
                  txf_quantity = qty, txf_fee = fee_in_base,
                  txf_transaction_currency = transaction_currency\<rparr>]\<rparr>))"

subsection \<open>A caller's sequence of calls\<close>

text \<open>
  The arguments of one call of \<^verbatim>\<open>add_transaction\<close>, and a sequence of calls on one
  portfolio. An exception ends the call that raised it and nothing else: the caller
  (the loop of \<^verbatim>\<open>process_coinbase_csv\<close> catches it and goes on) makes its next
  call on the portfolio as the raising call left it.
\<close>

record 't request =
  rq_action :: string
  rq_asset :: string
  rq_price :: pyfloat
  rq_quantity :: pyfloat
  rq_fee :: pyfloat
  rq_transaction_currency :: string
  rq_timestamp :: 't
  rq_to_asset :: "string option"

definition apply_request :: "'t portfolio_f \<Rightarrow> 't request \<Rightarrow> 't portfolio_f" where
  "apply_request self r =
     snd (add_transaction_f self (rq_action r) (rq_asset r) (rq_price r) (rq_quantity r)
            (rq_fee r) (rq_transaction_currency r) (rq_timestamp r) (rq_to_asset r))"

fun apply_calls :: "'t portfolio_f \<Rightarrow> 't request list \<Rightarrow> 't portfolio_f" where
  "apply_calls self [] = self"
| "apply_calls self (r # rs) = apply_calls (apply_request self r) rs"

subsection \<open>Concrete ledgers and calls over floats\<close>



text \<open>
  Three calls with positive quantities and non-negative prices and fees, the first with
  the price \<^verbatim>\<open>1e308\<close>: a buy of 10 units, a sale of 5, a conversion.
\<close>

definition overflow_calls :: "nat option request list" where
  "overflow_calls =
     [\<lparr>rq_action = ''buy'', rq_asset = ''BTC'', rq_price = py_float (10 ^ 308),
       rq_quantity = py_float 10, rq_fee = py_float 0,
       rq_transaction_currency = ''SEK'', rq_timestamp = None, rq_to_asset = None\<rparr>,
      \<lparr>rq_action = ''sell'', rq_asset = ''BTC'', rq_price = py_float 1,
       rq_quantity = py_float 5, rq_fee = py_float 0,
       rq_transaction_currency = ''SEK'', rq_timestamp = None, rq_to_asset = None\<rparr>,
      \<lparr>rq_action = ''convert'', rq_asset = ''BTC'', rq_price = py_float 1,
       rq_quantity = py_float 1, rq_fee = py_float 0,
       rq_transaction_currency = ''SEK'', rq_timestamp = None, rq_to_asset = Some ''ETH''\<rparr>]"

text \<open>
  Three calls on ordinary amounts: a buy, a sale of more than is held (it raises), and
  a conversion.
\<close>

definition finite_calls :: "nat option request list" where
  "finite_calls =
     [\<lparr>rq_action = ''buy'', rq_asset = ''BTC'', rq_price = py_float 1000,
       rq_quantity = py_float 1, rq_fee = py_float 0,
       rq_transaction_currency = ''SEK'', rq_timestamp = None, rq_to_asset = None\<rparr>,
      \<lparr>rq_action = ''sell'', rq_asset = ''BTC'', rq_price = py_float 1200,
       rq_quantity = py_float 2, rq_fee = py_float 0,
       rq_transaction_currency = ''SEK'', rq_timestamp = None, rq_to_asset = None\<rparr>,
      \<lparr>rq_action = ''convert'', rq_asset = ''BTC'', rq_price = py_float 300,
       rq_quantity = py_float 2, rq_fee = py_float 0,
       rq_transaction_currency = ''SEK'', rq_timestamp = None, rq_to_asset = Some ''ETH''\<rparr>]"

section \<open>Facts about the operations over the reals\<close>

lemma avg_price_pos: "quantity self \<noteq> 0 \<Longrightarrow> avg_price self = total_cost self / quantity self"
  by (simp add: avg_price_def)

text \<open>
  The sale a conversion synthesises: \<open>c / avg_price i\<close> units at the position's own
  average price. The proceeds before the fee and the cost removed are both \<open>c\<close>.
\<close>

lemma sell_at_avg_price:
  assumes "avg_price i \<noteq> 0" and "\<not> c / avg_price i > quantity i"
  shows "sell i (avg_price i) (c / avg_price i) fee =
           (Inr (- fee),
            i\<lparr>total_cost := total_cost i - c,
              quantity := quantity i - c / avg_price i,
              realized_profit_loss := realized_profit_loss i @ [- fee]\<rparr>)"
  using assms by (simp add: sell_def Let_def)

text \<open>Called on its own, \<^verbatim>\<open>handle_conversion\<close> rejects a source without a position.\<close>

lemma handle_conversion_no_source:
  "investments self from_asset = None \<Longrightarrow>
   handle_conversion self from_asset t qty price fee ts = (Inl NoHoldings, self)"
  by (simp add: handle_conversion_def)

text \<open>Every raise of \<^verbatim>\<open>handle_conversion\<close> comes before its first mutation.\<close>

lemma handle_conversion_raises:
  assumes "handle_conversion self from_asset t qty price fee ts = (Inl e, self')"
  shows "self' = self"
  using assms
  by (auto simp: handle_conversion_def Let_def sell_at_avg_price
           split: option.splits if_splits)

lemma handle_conversion_returns:
  assumes "handle_conversion self from_asset t qty price fee ts = (Inr u, self')"
  shows "\<exists>i. investments self from_asset = Some i \<and> avg_price i \<noteq> 0
           \<and> (price * qty + fee) / avg_price i \<le> quantity i"
  using assms
  by (auto simp: handle_conversion_def Let_def
           split: option.splits if_splits)

lemma handle_conversion_ok:
  assumes "investments self from_asset = Some i" and "avg_price i \<noteq> 0"
    and "(price * qty + fee) / avg_price i \<le> quantity i"
  shows "handle_conversion self from_asset t qty price fee ts =
    (let sold = i\<lparr>total_cost := total_cost i - (price * qty + fee),
                   quantity := quantity i - (price * qty + fee) / avg_price i,
                   realized_profit_loss := realized_profit_loss i @ [- fee]\<rparr>;
         invs1 = (investments self)(from_asset \<mapsto> sold);
         invs2 = invs1(t \<mapsto> buy (case invs1 t of None \<Rightarrow> Investment | Some j \<Rightarrow> j)
                             price qty 0)
     in (Inr (),
         self\<lparr>investments := invs2,
              transactions := transactions self @
                [\<lparr>tx_timestamp = ts, tx_action = ''sell'', tx_asset = from_asset,
                  tx_to_asset = None, tx_price = avg_price (the (invs2 from_asset)),
                  tx_quantity = (price * qty + fee) / avg_price i, tx_fee = fee,
                  tx_transaction_currency = base_currency self\<rparr>,
                 \<lparr>tx_timestamp = ts, tx_action = ''buy'', tx_asset = t,
                  tx_to_asset = None, tx_price = price, tx_quantity = qty, tx_fee = 0,
                  tx_transaction_currency = base_currency self\<rparr>]\<rparr>))"
proof -
  from assms(2,3) have "\<not> (price * qty + fee) / avg_price i > quantity i" by simp
  with assms(2) have
    "sell i (avg_price i) ((price * qty + fee) / avg_price i) fee =
       (Inr (- fee),
        i\<lparr>total_cost := total_cost i - (price * qty + fee),
          quantity := quantity i - (price * qty + fee) / avg_price i,
          realized_profit_loss := realized_profit_loss i @ [- fee]\<rparr>)"
    by (rule sell_at_avg_price)
  with assms show ?thesis
    by (simp add: handle_conversion_def Let_def)
qed

text \<open>
  A \<^verbatim>\<open>convert\<close> that returns had a target, found a position of the source with a
  non-zero average price and enough units, and ends with the record of the request
  appended after what \<^verbatim>\<open>handle_conversion\<close> did.
\<close>

lemma add_transaction_convert_returns:
  assumes "add_transaction self ''convert'' asset price qty fee cur ts to_asset = (Inr u, self')"
  shows "\<exists>t i. to_asset = Some t \<and> t \<noteq> [] \<and> investments self asset = Some i
           \<and> avg_price i \<noteq> 0 \<and> (price * qty + fee) / avg_price i \<le> quantity i
           \<and> (\<exists>mid. handle_conversion self asset t qty price fee ts = (Inr (), mid) \<and>
                self' = mid\<lparr>transactions := transactions mid @
                  [\<lparr>tx_timestamp = ts, tx_action = ''convert'', tx_asset = asset,
                    tx_to_asset = Some to_asset, tx_price = price,
                    tx_quantity = qty, tx_fee = fee,
                    tx_transaction_currency = cur\<rparr>]\<rparr>)"
proof -
  from assms obtain t where t: "to_asset = Some t" "t \<noteq> []"
    by (auto simp: add_transaction_def Let_def split: option.splits if_splits)
  show ?thesis
  proof (cases "investments self asset")
    case None
    then have "handle_conversion (self\<lparr>investments := (investments self)(asset \<mapsto> Investment)\<rparr>)
        asset t qty price fee ts =
        (Inl ZeroDivisionError, self\<lparr>investments := (investments self)(asset \<mapsto> Investment)\<rparr>)"
      by (simp add: handle_conversion_def Investment_def avg_price_def)
    with None t assms show ?thesis
      by (simp add: add_transaction_def Let_def)
  next
    case (Some i)
    with t assms obtain mid where mid:
      "handle_conversion self asset t qty price fee ts = (Inr (), mid)"
      "self' = mid\<lparr>transactions := transactions mid @
                  [\<lparr>tx_timestamp = ts, tx_action = ''convert'', tx_asset = asset,
                    tx_to_asset = Some to_asset, tx_price = price,
                    tx_quantity = qty, tx_fee = fee,
                    tx_transaction_currency = cur\<rparr>]\<rparr>"
      by (auto simp: add_transaction_def Let_def split: prod.splits sum.splits)
    from handle_conversion_returns[OF mid(1)] Some
    have "avg_price i \<noteq> 0 \<and> (price * qty + fee) / avg_price i \<le> quantity i" by simp
    with t Some mid show ?thesis by simp
  qed
qed

section \<open>Facts about binary64\<close>

subsection \<open>The nearest integer\<close>

lemma round_half_even_of_int: "round_half_even (of_int m) = m"
  by (simp add: round_half_even_def)

lemma round_half_even_lower: "of_int a \<le> s \<Longrightarrow> a \<le> round_half_even s"
proof -
  assume "of_int a \<le> s"
  then have "a \<le> \<lfloor>s\<rfloor>" by (simp add: le_floor_iff)
  then show ?thesis
    by (auto simp: round_half_even_def Let_def)
qed

lemma round_half_even_upper: "s \<le> of_int b \<Longrightarrow> round_half_even s \<le> b"
proof -
  assume s: "s \<le> of_int b"
  show ?thesis
  proof (cases "s = of_int b")
    case True
    then show ?thesis by (simp add: round_half_even_of_int)
  next
    case False
    with s have "s < of_int b" by simp
    then have "\<lfloor>s\<rfloor> < b" by (simp add: floor_less_iff)
    then have "\<lfloor>s\<rfloor> + 1 \<le> b" by simp
    then show ?thesis
      by (auto simp: round_half_even_def Let_def)
  qed
qed

lemma round_half_even_abs_le:
  assumes "\<bar>s\<bar> \<le> of_int b"
  shows "\<bar>round_half_even s\<bar> \<le> b"
proof -
  from assms have "of_int (- b) \<le> s" "s \<le> of_int b" by simp_all
  then have "- b \<le> round_half_even s" "round_half_even s \<le> b"
    by (auto intro: round_half_even_lower round_half_even_upper)
  then show ?thesis by simp
qed

lemma round_half_even_nonneg: "0 \<le> s \<Longrightarrow> 0 \<le> round_half_even s"
  using round_half_even_lower[of 0 s] by simp

text \<open>Rounding keeps the sign: a non-negative exact result never rounds below zero.\<close>

lemma rnd_nonneg:
  assumes "0 \<le> x"
  shows "rnd x = PInf \<or> (\<exists>y. rnd x = Finite y \<and> 0 \<le> y)"
proof (cases "x = 0")
  case True
  then show ?thesis by (simp add: rnd_def)
next
  case False
  with assms have pos: "0 < x" by simp
  define q where "q = max (expo x - 52) (- 1074)"
  have "0 \<le> x / 2 powi q" using pos by simp
  then have "0 \<le> round_half_even (x / 2 powi q)" by (rule round_half_even_nonneg)
  then have "(0::rat) \<le> of_int (round_half_even (x / 2 powi q)) * 2 powi q" by simp
  with pos False show ?thesis
    by (simp add: rnd_def Let_def q_def)
qed

subsection \<open>The exponent\<close>

lemma bitlen_pos: "0 < n \<Longrightarrow> 1 \<le> bitlen n"
  using bitlen_eq_zero_iff[of n] bitlen_nonneg[of n] by linarith

lemma bitlen_rat_bounds:
  assumes "0 < n"
  shows "(2::rat) powi (bitlen n - 1) \<le> of_int n" and "of_int n < (2::rat) powi bitlen n"
proof -
  from assms have b: "1 \<le> bitlen n" by (rule bitlen_pos)
  from bitlen_bounds[OF assms] have
    lo: "2 ^ nat (bitlen n - 1) \<le> n" and hi: "n < 2 ^ nat (bitlen n)" by simp_all
  from lo have "(of_int (2 ^ nat (bitlen n - 1)) :: rat) \<le> of_int n"
    by (simp only: of_int_le_iff)
  with b show "(2::rat) powi (bitlen n - 1) \<le> of_int n"
    by (simp add: power_int_def)
  from hi have "(of_int n :: rat) < of_int (2 ^ nat (bitlen n))"
    by (simp only: of_int_less_iff)
  with b show "of_int n < (2::rat) powi bitlen n"
    by (simp add: power_int_def)
qed

lemma expo_bounds:
  assumes "x \<noteq> 0"
  shows "2 powi expo x \<le> \<bar>x\<bar>" and "\<bar>x\<bar> < 2 powi (expo x + 1)"
proof -
  obtain n d where nd: "quotient_of \<bar>x\<bar> = (n, d)" by (cases "quotient_of \<bar>x\<bar>")
  then have d: "0 < d" by (rule quotient_of_denom_pos)
  from nd have x: "\<bar>x\<bar> = of_int n / of_int d" by (rule quotient_of_div)
  from assms have "0 < \<bar>x\<bar>" by simp
  with x d have n: "0 < n" by (simp add: zero_less_divide_iff)
  define k where "k = bitlen n - bitlen d"
  note bn = bitlen_rat_bounds[OF n] and bd = bitlen_rat_bounds[OF d]
  have dpos: "(0::rat) < of_int d" using d by simp
  have "\<bar>x\<bar> < 2 powi bitlen n / of_int d"
    unfolding x using bn(2) dpos by (simp add: divide_strict_right_mono)
  also have "\<dots> \<le> 2 powi bitlen n / 2 powi (bitlen d - 1)"
    using bd(1) dpos by (intro divide_left_mono) (simp_all add: zero_less_mult_iff)
  also have "\<dots> = 2 powi (bitlen n - (bitlen d - 1))"
    by (rule power_int_diff[symmetric]) simp
  also have "bitlen n - (bitlen d - 1) = k + 1"
    by (simp add: k_def)
  finally have up: "\<bar>x\<bar> < 2 powi (k + 1)" .
  have "k - 1 = bitlen n - 1 - bitlen d"
    by (simp add: k_def)
  then have "(2::rat) powi (k - 1) = 2 powi (bitlen n - 1 - bitlen d)"
    by (rule arg_cong)
  also have "\<dots> = 2 powi (bitlen n - 1) / 2 powi bitlen d"
    by (rule power_int_diff) simp
  also have "\<dots> \<le> of_int n / 2 powi bitlen d"
    using bn(1) by (intro divide_right_mono) simp_all
  also have "\<dots> < of_int n / of_int d"
    using bd(2) n dpos by (intro divide_strict_left_mono) simp_all
  finally have lo: "2 powi (k - 1) < \<bar>x\<bar>" unfolding x .
  have e: "expo x = (if 2 powi k \<le> \<bar>x\<bar> then k else k - 1)"
    by (simp add: expo_def nd k_def Let_def)
  show "2 powi expo x \<le> \<bar>x\<bar>"
    using lo by (simp add: e)
  show "\<bar>x\<bar> < 2 powi (expo x + 1)"
    using up by (simp add: e not_le)
qed

lemma powi2_less_cancel: "(2::rat) powi a < 2 powi b \<Longrightarrow> a < b"
proof (rule ccontr)
  assume l: "(2::rat) powi a < 2 powi b" and "\<not> a < b"
  then have "b \<le> a" by simp
  then have "(2::rat) powi b \<le> 2 powi a" by (rule power_int_increasing) simp
  with l show False by simp
qed

lemma expo_le:
  assumes "x \<noteq> 0" and "\<bar>x\<bar> < 2 powi (E + 1)"
  shows "expo x \<le> E"
proof -
  from expo_bounds(1)[OF assms(1)] assms(2) have "(2::rat) powi expo x < 2 powi (E + 1)"
    by (rule le_less_trans)
  then have "expo x < E + 1" by (rule powi2_less_cancel)
  then show ?thesis by simp
qed

lemma expo_ge:
  assumes "x \<noteq> 0" and "2 powi E \<le> \<bar>x\<bar>"
  shows "E \<le> expo x"
proof -
  from assms(2) expo_bounds(2)[OF assms(1)] have "(2::rat) powi E < 2 powi (expo x + 1)"
    by (rule le_less_trans)
  then have "E < expo x + 1" by (rule powi2_less_cancel)
  then show ?thesis by simp
qed


subsection \<open>Rounding is idempotent\<close>

text \<open>
  A rational on the grid of its own binade is a float and rounds to itself; so does every
  finite value that \<open>rnd\<close> returns. Hence \<open>x - 0\<close> is \<open>x\<close> for the result \<open>x\<close> of an
  operation.
\<close>

lemma rnd_of_grid:
  assumes qy: "qy = max (expo y - 52) (- 1074)" and y: "y = of_int M * 2 powi qy"
    and fin: "\<not> 2 ^ 1024 \<le> \<bar>y\<bar>"
  shows "rnd y = Finite y"
proof (cases "y = 0")
  case True
  then show ?thesis by (simp add: rnd_def)
next
  case False
  have "y / 2 powi qy = of_int M"
    by (subst y) simp
  then have "round_half_even (y / 2 powi qy) = M"
    by (simp only: round_half_even_of_int)
  then have "of_int (round_half_even (y / 2 powi qy)) * 2 powi qy = y"
    using y by simp
  with False fin show ?thesis
    unfolding rnd_def Let_def qy[symmetric] by simp
qed

lemma rnd_idem:
  assumes "rnd x = Finite y"
  shows "rnd y = Finite y"
proof (cases "x = 0")
  case True
  with assms have "y = 0" by (simp add: rnd_def)
  then show ?thesis by (simp add: rnd_def)
next
  case False
  define q where "q = max (expo x - 52) (- 1074)"
  define m where "m = round_half_even (x / 2 powi q)"
  from assms False have y: "y = of_int m * 2 powi q" and fin: "\<not> 2 ^ 1024 \<le> \<bar>y\<bar>"
    by (auto simp: rnd_def Let_def q_def m_def split: if_splits)
  have q_lo: "- 1074 \<le> q" and q_e: "expo x + 1 - q \<le> 53"
    by (simp_all add: q_def)
  have p2: "(0::rat) < 2 powi q" by simp
  have "\<bar>x / 2 powi q\<bar> = \<bar>x\<bar> / 2 powi q" by simp
  also have "\<dots> < 2 powi (expo x + 1) / 2 powi q"
    using expo_bounds(2)[OF False] p2 by (simp add: divide_strict_right_mono)
  also have "\<dots> = 2 powi (expo x + 1 - q)"
    by (rule power_int_diff[symmetric]) simp
  also have "\<dots> \<le> 2 powi 53"
    using q_e by (intro power_int_increasing) simp_all
  finally have "\<bar>x / 2 powi q\<bar> \<le> of_int (2 ^ 53)" by simp
  then have m_le: "\<bar>m\<bar> \<le> 2 ^ 53"
    unfolding m_def by (rule round_half_even_abs_le)
  show ?thesis
  proof (cases "m = 0")
    case True
    with y show ?thesis by (simp add: rnd_def)
  next
    case m0: False
    with y have y0: "y \<noteq> 0" by simp
    have absy: "\<bar>y\<bar> = of_int \<bar>m\<bar> * 2 powi q"
      by (simp add: y abs_mult)
    show ?thesis
    proof (cases "\<bar>m\<bar> < 2 ^ 53")
      case True
      then have "(of_int \<bar>m\<bar> :: rat) < of_int (2 ^ 53)"
        by (simp only: of_int_less_iff)
      then have "\<bar>y\<bar> < 2 powi 53 * 2 powi q"
        unfolding absy using p2 by (simp add: mult_strict_right_mono)
      also have "\<dots> = 2 powi (52 + q + 1)"
        by (simp add: power_int_add)
      finally have "expo y \<le> 52 + q" by (rule expo_le[OF y0])
      with q_lo have le: "max (expo y - 52) (- 1074) \<le> q" by simp
      define qy where "qy = max (expo y - 52) (- 1074)"
      from le have d: "0 \<le> q - qy" by (simp add: qy_def)
      have "(2::rat) powi q = 2 powi (q - qy) * 2 powi qy"
        by (simp flip: power_int_add)
      also have "(2::rat) powi (q - qy) = of_int (2 ^ nat (q - qy))"
        using d by (simp add: power_int_def)
      finally have "y = of_int (m * 2 ^ nat (q - qy)) * 2 powi qy"
        by (simp add: y)
      with qy_def show ?thesis
        using fin by (rule rnd_of_grid)
    next
      case False
      with m_le have am: "\<bar>m\<bar> = 2 ^ 53" by simp
      then have "\<bar>y\<bar> = 2 powi 53 * 2 powi q"
        by (simp add: absy)
      also have "\<dots> = 2 powi (53 + q)"
        by (simp add: power_int_add)
      finally have ay: "\<bar>y\<bar> = 2 powi (53 + q)" .
      have "(2::rat) powi (53 + q) < 2 powi (53 + q + 1)"
        by (intro power_int_strict_increasing) simp_all
      with ay have "expo y \<le> 53 + q" by (intro expo_le[OF y0]) simp
      moreover from ay have "53 + q \<le> expo y" by (intro expo_ge[OF y0]) simp
      ultimately have ey: "expo y = 53 + q" by simp
      with q_lo have qy: "max (expo y - 52) (- 1074) = q + 1" by simp
      from am have "even m"
        by (metis abs_of_nonneg abs_minus_cancel even_abs_add_iff even_add even_numeral even_power
              zero_less_numeral dvd_abs_iff)
      then obtain h where h: "m = 2 * h" by (auto elim: evenE)
      have "(2::rat) powi (q + 1) = 2 * 2 powi q"
        by (simp add: power_int_add)
      then have "y = of_int h * 2 powi (q + 1)"
        by (simp add: y h)
      with qy[symmetric] show ?thesis using fin by (rule rnd_of_grid)
    qed
  qed
qed

lemma is_binary64_rnd: "is_binary64 (rnd x)"
  by (cases "rnd x") (auto simp: is_binary64_def dest: rnd_idem)

lemma is_binary64_results:
  "is_binary64 (py_float r)" "is_binary64 (fadd a b)" "is_binary64 (fsub a b)"
  "is_binary64 (fmul a b)" "is_binary64 (fdiv a b)"
proof -
  have z: "is_binary64 (Finite 0)" "is_binary64 PInf" "is_binary64 NInf" "is_binary64 NaN"
    by (simp_all add: is_binary64_def rnd_def)
  show "is_binary64 (py_float r)"
    by (simp add: py_float_def is_binary64_rnd)
  show add: "is_binary64 (fadd a b)" for a b
    by (cases a; cases b) (simp_all add: is_binary64_rnd z)
  show "is_binary64 (fsub a b)"
    unfolding fsub_def by (rule add)
  show "is_binary64 (fmul a b)"
    by (cases a; cases b) (simp_all add: is_binary64_rnd z)
  show "is_binary64 (fdiv a b)"
    by (cases a; cases b) (simp_all add: is_binary64_rnd z)
qed

subsection \<open>The rounding error\<close>




section \<open>Facts about the operations over floats\<close>

subsection \<open>Quantities under buy, sell and conversion\<close>

text \<open>
  A sum of two floats that are not negative is not negative or is not a number, and so
  is a difference that has passed the guard \<open>\<not> fless a b\<close>.
\<close>

lemma fadd_nonneg:
  assumes "fle (Finite 0) a \<or> a = NaN" and "fle (Finite 0) b"
  shows "fle (Finite 0) (fadd a b) \<or> fadd a b = NaN"
proof (cases a)
  case (Finite x)
  show ?thesis
  proof (cases b)
    case (Finite y)
    with \<open>a = Finite x\<close> assms have "0 \<le> x + y" by simp
    from rnd_nonneg[OF this] show ?thesis
      using \<open>a = Finite x\<close> Finite by auto
  qed (use assms Finite in auto)
qed (use assms in \<open>cases b; auto\<close>)+

lemma fsub_guarded:
  assumes "fle (Finite 0) a \<or> a = NaN" and "\<not> fless a b"
  shows "fle (Finite 0) (fsub a b) \<or> fsub a b = NaN"
proof (cases a)
  case (Finite x)
  show ?thesis
  proof (cases b)
    case (Finite y)
    with \<open>a = Finite x\<close> assms have "0 \<le> x + - y" by simp
    from rnd_nonneg[OF this] show ?thesis
      using \<open>a = Finite x\<close> Finite by (auto simp: fsub_def)
  qed (use assms Finite in \<open>auto simp: fsub_def\<close>)
qed (use assms in \<open>cases b; auto simp: fsub_def\<close>)+

lemma buy_f_quantity:
  assumes "fle (Finite 0) (quantity_f i) \<or> quantity_f i = NaN" and "fle (Finite 0) qty"
  shows "fle (Finite 0) (quantity_f (buy_f i price qty fee)) \<or>
         quantity_f (buy_f i price qty fee) = NaN"
  using fadd_nonneg[OF assms] by (simp add: buy_f_def Let_def)

lemma sell_f_quantity:
  assumes "fle (Finite 0) (quantity_f i) \<or> quantity_f i = NaN"
  shows "fle (Finite 0) (quantity_f (snd (sell_f i price qty fee))) \<or>
         quantity_f (snd (sell_f i price qty fee)) = NaN"
proof (cases "fless (quantity_f i) qty")
  case True
  with assms show ?thesis by (simp add: sell_f_def)
next
  case False
  from fsub_guarded[OF assms False] False show ?thesis
    by (simp add: sell_f_def Let_def)
qed

lemma Investment_f_quantity: "fle (Finite 0) (quantity_f Investment_f)"
  by (simp add: Investment_f_def)

lemma handle_conversion_f_raises:
  assumes "handle_conversion_f self from_asset t qty price fee ts = (Inl e, self')"
  shows "self' = self"
  using assms
  by (auto simp: handle_conversion_f_def Let_def sell_f_def
           split: option.splits if_splits)

lemma handle_conversion_f_returns:
  assumes "handle_conversion_f self from_asset t qty price fee ts = (Inr u, self')"
  shows "\<exists>i. investments_f self from_asset = Some i \<and> avg_price_f i \<noteq> Finite 0
           \<and> \<not> fless (quantity_f i) (fdiv (fadd (fmul price qty) fee) (avg_price_f i))"
  using assms
  by (auto simp: handle_conversion_f_def Let_def
           split: option.splits if_splits)

lemma handle_conversion_f_ok:
  assumes "investments_f self from_asset = Some i" and "avg_price_f i \<noteq> Finite 0"
    and "\<not> fless (quantity_f i) (fdiv (fadd (fmul price qty) fee) (avg_price_f i))"
  shows "handle_conversion_f self from_asset t qty price fee ts =
    (let quantity_to_sell = fdiv (fadd (fmul price qty) fee) (avg_price_f i);
         y = fmul (avg_price_f i) quantity_to_sell;
         sold = i\<lparr>total_cost_f := fsub (total_cost_f i) y,
                   quantity_f := fsub (quantity_f i) quantity_to_sell,
                   realized_profit_loss_f :=
                     realized_profit_loss_f i @ [fsub (fsub y fee) y]\<rparr>;
         invs1 = (investments_f self)(from_asset \<mapsto> sold);
         invs2 = invs1(t \<mapsto> buy_f (case invs1 t of None \<Rightarrow> Investment_f | Some j \<Rightarrow> j)
                             price qty (Finite 0))
     in (Inr (),
         self\<lparr>investments_f := invs2,
              transactions_f := transactions_f self @
                [\<lparr>txf_timestamp = ts, txf_action = ''sell'', txf_asset = from_asset,
                  txf_to_asset = None, txf_price = avg_price_f (the (invs2 from_asset)),
                  txf_quantity = quantity_to_sell, txf_fee = fee,
                  txf_transaction_currency = base_currency_f self\<rparr>,
                 \<lparr>txf_timestamp = ts, txf_action = ''buy'', txf_asset = t,
                  txf_to_asset = None, txf_price = price, txf_quantity = qty,
                  txf_fee = Finite 0,
                  txf_transaction_currency = base_currency_f self\<rparr>]\<rparr>))"
  using assms by (simp add: handle_conversion_f_def sell_f_def Let_def)

lemma handle_conversion_f_quantity:
  assumes inv: "\<forall>a i. investments_f self a = Some i \<longrightarrow>
                  fle (Finite 0) (quantity_f i) \<or> quantity_f i = NaN"
    and q: "fle (Finite 0) qty"
  shows "\<forall>a i. investments_f (snd (handle_conversion_f self from_asset t qty price fee ts)) a
             = Some i \<longrightarrow> fle (Finite 0) (quantity_f i) \<or> quantity_f i = NaN"
proof (cases "fst (handle_conversion_f self from_asset t qty price fee ts)")
  case (Inl e)
  then have "handle_conversion_f self from_asset t qty price fee ts =
      (Inl e, snd (handle_conversion_f self from_asset t qty price fee ts))"
    by (simp add: prod_eq_iff)
  then have "snd (handle_conversion_f self from_asset t qty price fee ts) = self"
    by (rule handle_conversion_f_raises)
  with inv show ?thesis by simp
next
  case (Inr u)
  then have "handle_conversion_f self from_asset t qty price fee ts =
      (Inr u, snd (handle_conversion_f self from_asset t qty price fee ts))"
    by (simp add: prod_eq_iff)
  from handle_conversion_f_returns[OF this] obtain i where
    i: "investments_f self from_asset = Some i" "avg_price_f i \<noteq> Finite 0"
       "\<not> fless (quantity_f i) (fdiv (fadd (fmul price qty) fee) (avg_price_f i))"
    by blast
  from inv have other:
    "\<And>a j. investments_f self a = Some j \<Longrightarrow> fle (Finite 0) (quantity_f j) \<or> quantity_f j = NaN"
    by blast
  define qts where "qts = fdiv (fadd (fmul price qty) fee) (avg_price_f i)"
  define sold where "sold = i\<lparr>total_cost_f := fsub (total_cost_f i) (fmul (avg_price_f i) qts),
                   quantity_f := fsub (quantity_f i) qts,
                   realized_profit_loss_f := realized_profit_loss_f i @
                     [fsub (fsub (fmul (avg_price_f i) qts) fee) (fmul (avg_price_f i) qts)]\<rparr>"
  have s: "fle (Finite 0) (quantity_f sold) \<or> quantity_f sold = NaN"
    using fsub_guarded[OF other[OF i(1)], of qts] i(3) by (simp add: sold_def qts_def)
  have b: "\<And>j. fle (Finite 0) (quantity_f j) \<or> quantity_f j = NaN \<Longrightarrow>
      fle (Finite 0) (quantity_f (buy_f j price qty (Finite 0))) \<or>
      quantity_f (buy_f j price qty (Finite 0)) = NaN"
    by (rule buy_f_quantity) (simp_all add: q)
  have b0: "fle (Finite 0) (quantity_f (buy_f Investment_f price qty (Finite 0))) \<or>
      quantity_f (buy_f Investment_f price qty (Finite 0)) = NaN"
    by (rule b) (simp add: Investment_f_quantity)
  show ?thesis
    unfolding handle_conversion_f_ok[OF i, of t ts] Let_def
    unfolding qts_def[symmetric] sold_def[symmetric]
    using s b b0 other
    by (auto split: option.splits if_splits)
qed


lemma add_transaction_f_quantity:
  assumes inv: "\<forall>a i. investments_f self a = Some i \<longrightarrow>
                  fle (Finite 0) (quantity_f i) \<or> quantity_f i = NaN"
    and q: "fle (Finite 0) qty"
  shows "\<forall>a i. investments_f
            (snd (add_transaction_f self action asset price qty fee cur ts to_asset)) a = Some i
           \<longrightarrow> fle (Finite 0) (quantity_f i) \<or> quantity_f i = NaN"
proof -
  define investment where
    "investment = (case investments_f self asset of None \<Rightarrow> Investment_f | Some i \<Rightarrow> i)"
  define self1 where "self1 =
     (case investments_f self asset of
        None \<Rightarrow> self\<lparr>investments_f := (investments_f self)(asset \<mapsto> Investment_f)\<rparr>
      | Some i \<Rightarrow> self)"
  from inv have other:
    "\<And>a j. investments_f self a = Some j \<Longrightarrow> fle (Finite 0) (quantity_f j) \<or> quantity_f j = NaN"
    by blast
  have i0: "fle (Finite 0) (quantity_f investment) \<or> quantity_f investment = NaN"
    using other by (auto simp: investment_def Investment_f_quantity split: option.splits)
  have inv1: "\<forall>a i. investments_f self1 a = Some i \<longrightarrow>
                  fle (Finite 0) (quantity_f i) \<or> quantity_f i = NaN"
    using other by (auto simp: self1_def Investment_f_quantity split: option.splits if_splits)
  then have other1:
    "\<And>a j. investments_f self1 a = Some j \<Longrightarrow> fle (Finite 0) (quantity_f j) \<or> quantity_f j = NaN"
    by blast
  have self1_eq: "self1 = (case investments_f self asset of
        None \<Rightarrow> self\<lparr>investments_f := (investments_f self)(asset \<mapsto> investment)\<rparr>
      | Some i \<Rightarrow> self)"
    by (simp add: self1_def investment_def split: option.splits)
  have upd: "\<And>j. fle (Finite 0) (quantity_f j) \<or> quantity_f j = NaN \<Longrightarrow>
      \<forall>a i. investments_f (self1\<lparr>investments_f := (investments_f self1)(asset \<mapsto> j)\<rparr>) a = Some i
        \<longrightarrow> fle (Finite 0) (quantity_f i) \<or> quantity_f i = NaN"
    using other1 by auto
  have conv: "\<And>t. \<forall>a i. investments_f (snd (handle_conversion_f self1 asset t qty price fee ts)) a
       = Some i \<longrightarrow> fle (Finite 0) (quantity_f i) \<or> quantity_f i = NaN"
    using inv1 q by (rule handle_conversion_f_quantity)
  have unfolded: "add_transaction_f self action asset price qty fee cur ts to_asset =
     (let dispatched =
            (if action = ''buy'' then
               (Inr (),
                self1\<lparr>investments_f :=
                  (investments_f self1)(asset \<mapsto> buy_f investment price qty fee)\<rparr>)
             else if action = ''sell'' then
               (case sell_f investment price qty fee of
                  (Inl e, i) \<Rightarrow>
                    (Inl e, self1\<lparr>investments_f := (investments_f self1)(asset \<mapsto> i)\<rparr>)
                | (Inr profit_loss, i) \<Rightarrow>
                    (Inr (), self1\<lparr>investments_f := (investments_f self1)(asset \<mapsto> i)\<rparr>))
             else if action = ''deposit'' then
               (Inr (),
                self1\<lparr>investments_f :=
                  (investments_f self1)(asset \<mapsto> buy_f investment (Finite 0) qty (Finite 0))\<rparr>)
             else if action = ''convert'' then
               (case to_asset of
                  None \<Rightarrow> (Inl MissingConversionTarget, self1)
                | Some t \<Rightarrow>
                    if t = [] then (Inl MissingConversionTarget, self1)
                    else handle_conversion_f self1 asset t qty price fee ts)
             else (Inl UnknownAction, self1))
      in case dispatched of
           (Inl e, self2) \<Rightarrow> (Inl e, self2)
         | (Inr u, self2) \<Rightarrow>
             (Inr (),
              self2\<lparr>transactions_f := transactions_f self2 @
                [\<lparr>txf_timestamp = ts, txf_action = action, txf_asset = asset,
                  txf_to_asset = Some to_asset, txf_price = price,
                  txf_quantity = qty, txf_fee = fee,
                  txf_transaction_currency = cur\<rparr>]\<rparr>))"
    unfolding add_transaction_f_def Let_def investment_def[symmetric] self1_eq[symmetric] ..
  have sellq: "fle (Finite 0) (quantity_f (snd (sell_f investment price qty fee))) \<or>
         quantity_f (snd (sell_f investment price qty fee)) = NaN"
    using i0 by (rule sell_f_quantity)
  have buyq: "\<And>p f. fle (Finite 0) (quantity_f (buy_f investment p qty f)) \<or>
         quantity_f (buy_f investment p qty f) = NaN"
    using i0 q by (rule buy_f_quantity)
  consider "action = ''buy''" | "action = ''sell''" | "action = ''deposit''"
    | "action = ''convert''"
    | "action \<noteq> ''buy''" "action \<noteq> ''sell''" "action \<noteq> ''deposit''" "action \<noteq> ''convert''"
    by blast
  then show ?thesis
  proof cases
    case 1
    show ?thesis
      unfolding unfolded Let_def using 1 upd[OF buyq[of price fee]] by simp
  next
    case 2
    obtain r i' where s: "sell_f investment price qty fee = (r, i')"
      by (cases "sell_f investment price qty fee")
    with sellq have "fle (Finite 0) (quantity_f i') \<or> quantity_f i' = NaN" by simp
    note u = upd[OF this]
    have "investments_f (snd (add_transaction_f self action asset price qty fee cur ts to_asset))
        = investments_f (self1\<lparr>investments_f := (investments_f self1)(asset \<mapsto> i')\<rparr>)"
      unfolding unfolded Let_def using 2 s by (cases r) simp_all
    with u show ?thesis by (simp only:)
  next
    case 3
    show ?thesis
      unfolding unfolded Let_def using 3 upd[OF buyq[of "Finite 0" "Finite 0"]] by simp
  next
    case 4
    show ?thesis
    proof (cases "to_asset = None \<or> to_asset = Some []")
      case True
      have "snd (add_transaction_f self action asset price qty fee cur ts to_asset) = self1"
        unfolding unfolded Let_def using True 4 by auto
      with inv1 show ?thesis by (simp only:)
    next
      case False
      then obtain t where t: "to_asset = Some t" "t \<noteq> []" by auto
      have "investments_f (snd (add_transaction_f self action asset price qty fee cur ts to_asset))
          = investments_f (snd (handle_conversion_f self1 asset t qty price fee ts))"
        unfolding unfolded Let_def using 4 t
        by (auto split: prod.splits sum.splits)
      with conv show ?thesis by simp
    qed
  next
    case 5
    have "snd (add_transaction_f self action asset price qty fee cur ts to_asset) = self1"
      unfolding unfolded Let_def using 5 by simp
    with inv1 show ?thesis by (simp only:)
  qed
qed

lemma apply_calls_quantity:
  assumes "\<forall>a i. investments_f self a = Some i \<longrightarrow>
             fle (Finite 0) (quantity_f i) \<or> quantity_f i = NaN"
    and "\<forall>r \<in> set rs. fle (Finite 0) (rq_quantity r)"
  shows "\<forall>a i. investments_f (apply_calls self rs) a = Some i \<longrightarrow>
           fle (Finite 0) (quantity_f i) \<or> quantity_f i = NaN"
  using assms
proof (induction rs arbitrary: self)
  case Nil
  then show ?case by simp
next
  case (Cons r rs)
  from Cons.prems have "\<forall>a i. investments_f (apply_request self r) a = Some i \<longrightarrow>
      fle (Finite 0) (quantity_f i) \<or> quantity_f i = NaN"
    unfolding apply_request_def by (intro add_transaction_f_quantity) simp_all
  with Cons.IH[of "apply_request self r"] Cons.prems(2) show ?case by simp
qed

lemma fless_imp_fle: "fless a b \<Longrightarrow> fle a b"
  by (cases a; cases b) auto

subsection \<open>The value realized by a conversion\<close>




section \<open>Evaluating floats on concrete inputs\<close>

text \<open>
  The value of one operation on two given floats is fixed by three numbers: the exponent
  \<open>e\<close> of the exact result, the scale \<open>q\<close> of its binade, and the integer \<open>m\<close> nearest
  to the exact result divided by \<open>2 powi q\<close>. Each of the facts below names them for
  one operation that the concrete runs of the last section perform.
\<close>

lemma expo_eq:
  assumes "2 powi e \<le> \<bar>x\<bar>" and "\<bar>x\<bar> < 2 powi (e + 1)"
  shows "expo x = e"
proof -
  have "(0::rat) < 2 powi e" by simp
  then have "0 < \<bar>x\<bar>" using assms(1) by (rule less_le_trans)
  then have x: "x \<noteq> 0" by simp
  from expo_le[OF x assms(2)] expo_ge[OF x assms(1)] show ?thesis by simp
qed

lemma round_half_even_nearest:
  assumes "\<bar>of_int m - s\<bar> < 1 / 2 \<or> (\<bar>of_int m - s\<bar> = 1 / 2 \<and> even m)"
  shows "round_half_even s = m"
proof -
  consider "of_int m \<le> s" "s < of_int m + 1 / 2"
    | "s < of_int m" "of_int m - 1 / 2 < s"
    | "s = of_int m + 1 / 2" "even m"
    | "s = of_int m - 1 / 2" "even m"
    using assms by atomize_elim (auto simp: abs_if split: if_splits, (linarith+)?)
  then show ?thesis
  proof cases
    case 1
    then have "\<lfloor>s\<rfloor> = m" by (intro floor_unique) simp_all
    with 1 show ?thesis by (simp add: round_half_even_def Let_def)
  next
    case 2
    then have "\<lfloor>s\<rfloor> = m - 1" by (intro floor_unique) simp_all
    with 2 show ?thesis by (simp add: round_half_even_def Let_def)
  next
    case 3
    then have "\<lfloor>s\<rfloor> = m" by (intro floor_unique) simp_all
    with 3 show ?thesis by (simp add: round_half_even_def Let_def)
  next
    case 4
    then have "\<lfloor>s\<rfloor> = m - 1" by (intro floor_unique) simp_all
    with 4 show ?thesis by (simp add: round_half_even_def Let_def)
  qed
qed

lemma rnd_nearest:
  assumes "2 powi e \<le> \<bar>x\<bar>" and "\<bar>x\<bar> < 2 powi (e + 1)"
    and "q = max (e - 52) (- 1074)"
    and "\<bar>of_int m - x / 2 powi q\<bar> < 1 / 2 \<or>
         (\<bar>of_int m - x / 2 powi q\<bar> = 1 / 2 \<and> even m)"
    and "y = of_int m * 2 powi q"
  shows "rnd x = (if 2 ^ 1024 \<le> \<bar>y\<bar> then (if 0 < x then PInf else NInf) else Finite y)"
proof -
  have "(0::rat) < 2 powi e" by simp
  then have "0 < \<bar>x\<bar>" using assms(1) by (rule less_le_trans)
  then have x: "x \<noteq> 0" by simp
  from assms(4) have "round_half_even (x / 2 powi q) = m"
    by (rule round_half_even_nearest)
  with x expo_eq[OF assms(1,2)] assms(3,5) show ?thesis
    by (simp add: rnd_def Let_def)
qed

lemma py_float_nearest:
  assumes "2 powi e \<le> \<bar>x\<bar>" and "\<bar>x\<bar> < 2 powi (e + 1)"
    and "q = max (e - 52) (- 1074)"
    and "\<bar>of_int m - x / 2 powi q\<bar> < 1 / 2 \<or>
         (\<bar>of_int m - x / 2 powi q\<bar> = 1 / 2 \<and> even m)"
    and "y = of_int m * 2 powi q"
  shows "py_float x =
           (if 2 ^ 1024 \<le> \<bar>y\<bar> then (if 0 < x then PInf else NInf) else Finite y)"
  unfolding py_float_def using assms by (rule rnd_nearest)

lemma fadd_nearest:
  assumes "2 powi e \<le> \<bar>a + b\<bar>" and "\<bar>a + b\<bar> < 2 powi (e + 1)"
    and "q = max (e - 52) (- 1074)"
    and "\<bar>of_int m - (a + b) / 2 powi q\<bar> < 1 / 2 \<or>
         (\<bar>of_int m - (a + b) / 2 powi q\<bar> = 1 / 2 \<and> even m)"
    and "y = of_int m * 2 powi q"
  shows "fadd (Finite a) (Finite b) =
           (if 2 ^ 1024 \<le> \<bar>y\<bar> then (if 0 < a + b then PInf else NInf) else Finite y)"
  unfolding fadd.simps using assms by (rule rnd_nearest)

lemma fmul_nearest:
  assumes "2 powi e \<le> \<bar>a * b\<bar>" and "\<bar>a * b\<bar> < 2 powi (e + 1)"
    and "q = max (e - 52) (- 1074)"
    and "\<bar>of_int m - (a * b) / 2 powi q\<bar> < 1 / 2 \<or>
         (\<bar>of_int m - (a * b) / 2 powi q\<bar> = 1 / 2 \<and> even m)"
    and "y = of_int m * 2 powi q"
  shows "fmul (Finite a) (Finite b) =
           (if 2 ^ 1024 \<le> \<bar>y\<bar> then (if 0 < a * b then PInf else NInf) else Finite y)"
  unfolding fmul.simps using assms by (rule rnd_nearest)

lemma fdiv_nearest:
  assumes "2 powi e \<le> \<bar>a / b\<bar>" and "\<bar>a / b\<bar> < 2 powi (e + 1)"
    and "q = max (e - 52) (- 1074)"
    and "\<bar>of_int m - (a / b) / 2 powi q\<bar> < 1 / 2 \<or>
         (\<bar>of_int m - (a / b) / 2 powi q\<bar> = 1 / 2 \<and> even m)"
    and "y = of_int m * 2 powi q"
  shows "fdiv (Finite a) (Finite b) =
           (if 2 ^ 1024 \<le> \<bar>y\<bar> then (if 0 < a / b then PInf else NInf) else Finite y)"
proof -
  have "(0::rat) < 2 powi e" by simp
  then have "0 < \<bar>a / b\<bar>" using assms(1) by (rule less_le_trans)
  then have "b \<noteq> 0" by auto
  then have "fdiv (Finite a) (Finite b) = rnd (a / b)" by simp
  also have "\<dots> =
      (if 2 ^ 1024 \<le> \<bar>y\<bar> then (if 0 < a / b then PInf else NInf) else Finite y)"
    using assms by (rule rnd_nearest)
  finally show ?thesis .
qed

lemma py_float_zero: "py_float 0 = Finite 0"
  by (simp add: py_float_def rnd_def)

lemma fadd_zero: "a + b = 0 \<Longrightarrow> fadd (Finite a) (Finite b) = Finite 0"
  by (simp add: rnd_def)

lemma fmul_zero: "a * b = 0 \<Longrightarrow> fmul (Finite a) (Finite b) = Finite 0"
  by (simp add: rnd_def)

lemma fdiv_zero: "b \<noteq> 0 \<Longrightarrow> a / b = 0 \<Longrightarrow> fdiv (Finite a) (Finite b) = Finite 0"
  by (simp add: rnd_def)


subsection \<open>The operations of the concrete runs\<close>

lemma ev_py_float_1:
  "py_float 1 = Finite 1"
  by (subst py_float_nearest[where e = 0 and q = "- 52" and m = 4503599627370496
        and y = 1])
     (simp_all add: power_int_minus)

lemma ev_py_float_2:
  "py_float 1000 = Finite 1000"
  by (subst py_float_nearest[where e = 9 and q = "- 43" and m = 8796093022208000
        and y = 1000])
     (simp_all add: power_int_minus)

lemma ev_py_float_3:
  "py_float 300 = Finite 300"
  by (subst py_float_nearest[where e = 8 and q = "- 44" and m = 5277655813324800
        and y = 300])
     (simp_all add: power_int_minus)

lemma ev_py_float_4:
  "py_float 2 = Finite 2"
  by (subst py_float_nearest[where e = 1 and q = "- 51" and m = 4503599627370496
        and y = 2])
     (simp_all add: power_int_minus)

lemma ev_py_float_5:
  "py_float 0 = Finite 0"
  by (rule py_float_zero)

lemma ev_fmul_6:
  "fmul (Finite 300) (Finite 2) = Finite 600"
  by (subst fmul_nearest[where e = 9 and q = "- 43" and m = 5277655813324800
        and y = 600])
     (simp_all add: power_int_minus)

lemma ev_fadd_7:
  "fadd (Finite 600) (Finite 0) = Finite 600"
  by (subst fadd_nearest[where e = 9 and q = "- 43" and m = 5277655813324800
        and y = 600])
     (simp_all add: power_int_minus)

lemma ev_fdiv_8:
  "fdiv (Finite 1000) (Finite 1) = Finite 1000"
  by (subst fdiv_nearest[where e = 9 and q = "- 43" and m = 8796093022208000
        and y = 1000])
     (simp_all add: power_int_minus)

lemma ev_fdiv_9:
  "fdiv (Finite 600) (Finite 1000) = Finite (5404319552844595 / 9007199254740992)"
  by (subst fdiv_nearest[where e = "- 1" and q = "- 53" and m = 5404319552844595
        and y = "5404319552844595 / 9007199254740992"])
     (simp_all add: power_int_minus)

lemma ev_fmul_10:
  "fmul (Finite 1000) (Finite (5404319552844595 / 9007199254740992)) = Finite 600"
  by (subst fmul_nearest[where e = 9 and q = "- 43" and m = 5277655813324800
        and y = 600])
     (simp_all add: power_int_minus)

lemma ev_fadd_11:
  "fadd (Finite 600) (Finite (- 600)) = Finite 0"
  by (rule fadd_zero) simp_all

lemma ev_fadd_12:
  "fadd (Finite 1000) (Finite (- 600)) = Finite 400"
  by (subst fadd_nearest[where e = 8 and q = "- 44" and m = 7036874417766400
        and y = 400])
     (simp_all add: power_int_minus)

lemma ev_fadd_13:
  "fadd (Finite 1) (Finite (- (5404319552844595 / 9007199254740992))) = Finite (3602879701896397 / 9007199254740992)"
  by (subst fadd_nearest[where e = "- 2" and q = "- 54" and m = 7205759403792794
        and y = "3602879701896397 / 9007199254740992"])
     (simp_all add: power_int_minus)

lemma ev_fadd_14:
  "fadd (Finite 0) (Finite 600) = Finite 600"
  by (subst fadd_nearest[where e = 9 and q = "- 43" and m = 5277655813324800
        and y = 600])
     (simp_all add: power_int_minus)

lemma ev_fadd_15:
  "fadd (Finite 0) (Finite 2) = Finite 2"
  by (subst fadd_nearest[where e = 1 and q = "- 51" and m = 4503599627370496
        and y = 2])
     (simp_all add: power_int_minus)

lemma ev_fdiv_16:
  "fdiv (Finite 400) (Finite (3602879701896397 / 9007199254740992)) = Finite 1000"
  by (subst fdiv_nearest[where e = 9 and q = "- 43" and m = 8796093022208000
        and y = 1000])
     (simp_all add: power_int_minus)











lemma ev_fmul_27:
  "fmul (Finite 1000) (Finite 1) = Finite 1000"
  by (subst fmul_nearest[where e = 9 and q = "- 43" and m = 8796093022208000
        and y = 1000])
     (simp_all add: power_int_minus)

lemma ev_fadd_28:
  "fadd (Finite 1000) (Finite 0) = Finite 1000"
  by (subst fadd_nearest[where e = 9 and q = "- 43" and m = 8796093022208000
        and y = 1000])
     (simp_all add: power_int_minus)

lemma ev_fadd_29:
  "fadd (Finite 0) (Finite 1000) = Finite 1000"
  by (subst fadd_nearest[where e = 9 and q = "- 43" and m = 8796093022208000
        and y = 1000])
     (simp_all add: power_int_minus)

lemma ev_fadd_30:
  "fadd (Finite 0) (Finite 1) = Finite 1"
  by (subst fadd_nearest[where e = 0 and q = "- 52" and m = 4503599627370496
        and y = 1])
     (simp_all add: power_int_minus)

lemma ev_py_float_31:
  "py_float 1200 = Finite 1200"
  by (subst py_float_nearest[where e = 10 and q = "- 42" and m = 5277655813324800
        and y = 1200])
     (simp_all add: power_int_minus)

lemma ev_py_float_32:
  "py_float (10 ^ 308) = Finite 100000000000000001097906362944045541740492309677311846336810682903157585404911491537163328978494688899061249669721172515611590283743140088328307009198146046031271664502933027185697489699588559043338384466165001178426897626212945177628091195786707458122783970171784415105291802893207873272974885715430223118336"
  by (subst py_float_nearest[where e = 1023 and q = 971 and m = 5010420900022432
        and y = 100000000000000001097906362944045541740492309677311846336810682903157585404911491537163328978494688899061249669721172515611590283743140088328307009198146046031271664502933027185697489699588559043338384466165001178426897626212945177628091195786707458122783970171784415105291802893207873272974885715430223118336])
     (simp_all add: power_int_minus)

lemma ev_py_float_33:
  "py_float 10 = Finite 10"
  by (subst py_float_nearest[where e = 3 and q = "- 49" and m = 5629499534213120
        and y = 10])
     (simp_all add: power_int_minus)

lemma ev_fmul_34:
  "fmul (Finite 100000000000000001097906362944045541740492309677311846336810682903157585404911491537163328978494688899061249669721172515611590283743140088328307009198146046031271664502933027185697489699588559043338384466165001178426897626212945177628091195786707458122783970171784415105291802893207873272974885715430223118336) (Finite 10) = PInf"
  by (subst fmul_nearest[where e = 1026 and q = 974 and m = 6263026125028040
        and y = 1000000000000000010979063629440455417404923096773118463368106829031575854049114915371633289784946888990612496697211725156115902837431400883283070091981460460312716645029330271856974896995885590433383844661650011784268976262129451776280911957867074581227839701717844151052918028932078732729748857154302231183360])
     (simp_all add: power_int_minus)

lemma ev_fadd_35:
  "fadd (Finite 0) (Finite 10) = Finite 10"
  by (subst fadd_nearest[where e = 3 and q = "- 49" and m = 5629499534213120
        and y = 10])
     (simp_all add: power_int_minus)

lemma ev_py_float_36:
  "py_float 5 = Finite 5"
  by (subst py_float_nearest[where e = 2 and q = "- 50" and m = 5629499534213120
        and y = 5])
     (simp_all add: power_int_minus)

lemma ev_fmul_37:
  "fmul (Finite 1) (Finite 5) = Finite 5"
  by (subst fmul_nearest[where e = 2 and q = "- 50" and m = 5629499534213120
        and y = 5])
     (simp_all add: power_int_minus)

lemma ev_fadd_38:
  "fadd (Finite 5) (Finite 0) = Finite 5"
  by (subst fadd_nearest[where e = 2 and q = "- 50" and m = 5629499534213120
        and y = 5])
     (simp_all add: power_int_minus)

lemma ev_fadd_39:
  "fadd (Finite 10) (Finite (- 5)) = Finite 5"
  by (subst fadd_nearest[where e = 2 and q = "- 50" and m = 5629499534213120
        and y = 5])
     (simp_all add: power_int_minus)

lemma ev_fmul_40:
  "fmul (Finite 1) (Finite 1) = Finite 1"
  by (subst fmul_nearest[where e = 0 and q = "- 52" and m = 4503599627370496
        and y = 1])
     (simp_all add: power_int_minus)

lemma ev_fadd_41:
  "fadd (Finite 1) (Finite 0) = Finite 1"
  by (subst fadd_nearest[where e = 0 and q = "- 52" and m = 4503599627370496
        and y = 1])
     (simp_all add: power_int_minus)



lemmas finite_calls_trace = ev_py_float_1 ev_py_float_2 ev_py_float_3 ev_py_float_4 ev_py_float_5 ev_fmul_6
  ev_fadd_7 ev_fdiv_8 ev_fdiv_9 ev_fmul_10 ev_fadd_11 ev_fadd_12 ev_fadd_13 ev_fadd_14 ev_fadd_15 ev_fdiv_16 ev_fmul_27
  ev_fadd_28 ev_fadd_29 ev_fadd_30 ev_py_float_31

lemmas overflow_calls_trace = ev_py_float_1 ev_py_float_5 ev_fadd_30 ev_py_float_32 ev_py_float_33
  ev_fmul_34 ev_fadd_35 ev_py_float_36 ev_fmul_37 ev_fadd_38 ev_fadd_39 ev_fmul_40 ev_fadd_41

lemmas float_program_defs =
  add_transaction_f_def handle_conversion_f_def sell_f_def buy_f_def avg_price_f_def
  Investment_f_def Portfolio_f_def apply_request_def fsub_def Let_def

section \<open>The claims\<close>

subsection \<open>C1: what a failing call leaves behind\<close>

text \<open>
  Claim C1, as amended. When \<^verbatim>\<open>add_transaction\<close> raises one of the errors the
  ledger itself raises (insufficient holdings, missing conversion target, unknown action,
  no holdings), the audit trail, the base currency and every position that existed are
  exactly as before the call. The one change a failing call can leave is the work of the
  get-or-create step, which runs before the action is looked at: when the asset of the
  transaction had no position, a new empty position for it stays in the mapping.
\<close>

theorem add_transaction_failure_state:
  assumes "add_transaction self action asset price qty fee cur ts to_asset = (Inl e, self')"
    and "e \<noteq> ZeroDivisionError"
  shows "self' =
           (case investments self asset of
              None \<Rightarrow> self\<lparr>investments := (investments self)(asset \<mapsto> Investment)\<rparr>
            | Some i \<Rightarrow> self)"
  using assms
  by (auto simp: add_transaction_def Let_def sell_def map_upd_triv
           dest: handle_conversion_raises
           split: option.splits if_splits prod.splits sum.splits)

theorem add_transaction_failure_state_witness:
  "add_transaction btc_ledger ''sell'' ''BTC'' 1200 2 0 ''SEK'' None None =
     (Inl InsufficientHoldings, btc_ledger)
   \<and> add_transaction btc_ledger ''sell'' ''ETH'' 1200 2 0 ''SEK'' None None =
     (Inl InsufficientHoldings,
      btc_ledger\<lparr>investments := (investments btc_ledger)(''ETH'' \<mapsto> Investment)\<rparr>)"
proof -
  have a: "add_transaction btc_ledger ''sell'' ''BTC'' 1200 2 0 ''SEK'' None None =
     (Inl InsufficientHoldings, btc_ledger)"
    by (simp add: add_transaction_def sell_def btc_ledger_def)
  have b: "add_transaction btc_ledger ''sell'' ''ETH'' 1200 2 0 ''SEK'' None None =
     (Inl InsufficientHoldings,
      btc_ledger\<lparr>investments := (investments btc_ledger)(''ETH'' \<mapsto> Investment)\<rparr>)"
    by (simp add: add_transaction_def sell_def btc_ledger_def Investment_def)
  have e: "InsufficientHoldings \<noteq> ZeroDivisionError" by simp
  from add_transaction_failure_state[OF a e] add_transaction_failure_state[OF b e] a b
  show ?thesis by simp
qed

text \<open>
  The claim as stated fails: on a new portfolio, selling an asset never seen raises the
  insufficient-holdings error, and the portfolio then has a position for that asset
  which it did not have before the call.
\<close>

theorem add_transaction_failure_counterexample:
  "fst (add_transaction (Portfolio ''SEK'') ''sell'' ''BTC'' 100 1 0 ''SEK''
          (None :: nat option) None) = Inl InsufficientHoldings
   \<and> get_investment (Portfolio ''SEK'' :: nat option portfolio) ''BTC'' = None
   \<and> get_investment (snd (add_transaction (Portfolio ''SEK'') ''sell'' ''BTC'' 100 1 0 ''SEK''
          (None :: nat option) None)) ''BTC'' = Some Investment"
  by (simp add: add_transaction_def sell_def Portfolio_def Investment_def get_investment_def)

subsection \<open>C2: the records of a conversion\<close>

text \<open>
  Claim C2, as amended. Every \<^verbatim>\<open>convert\<close> that \<^verbatim>\<open>add_transaction\<close> applies appends
  exactly three records to the audit trail, in this order: the sell record of the source
  leg and the buy record of the destination leg, written by \<^verbatim>\<open>handle_conversion\<close>,
  and then the record of the convert request itself, written by \<^verbatim>\<open>add_transaction\<close>
  as for every action. All three carry the timestamp of the request.
\<close>

theorem convert_appends_three_records:
  assumes "add_transaction self ''convert'' asset price qty fee cur ts to_asset = (Inr u, self')"
  shows "\<exists>t i sell_price. to_asset = Some t \<and> investments self asset = Some i \<and>
           transactions self' = transactions self @
             [\<lparr>tx_timestamp = ts, tx_action = ''sell'', tx_asset = asset,
               tx_to_asset = None, tx_price = sell_price,
               tx_quantity = (price * qty + fee) / avg_price i, tx_fee = fee,
               tx_transaction_currency = base_currency self\<rparr>,
              \<lparr>tx_timestamp = ts, tx_action = ''buy'', tx_asset = t,
               tx_to_asset = None, tx_price = price, tx_quantity = qty, tx_fee = 0,
               tx_transaction_currency = base_currency self\<rparr>,
              \<lparr>tx_timestamp = ts, tx_action = ''convert'', tx_asset = asset,
               tx_to_asset = Some to_asset, tx_price = price, tx_quantity = qty,
               tx_fee = fee, tx_transaction_currency = cur\<rparr>]"
proof -
  from add_transaction_convert_returns[OF assms] obtain t i mid where
    h: "to_asset = Some t" "investments self asset = Some i" "avg_price i \<noteq> 0"
       "(price * qty + fee) / avg_price i \<le> quantity i"
       "handle_conversion self asset t qty price fee ts = (Inr (), mid)"
       "self' = mid\<lparr>transactions := transactions mid @
                  [\<lparr>tx_timestamp = ts, tx_action = ''convert'', tx_asset = asset,
                    tx_to_asset = Some to_asset, tx_price = price,
                    tx_quantity = qty, tx_fee = fee,
                    tx_transaction_currency = cur\<rparr>]\<rparr>"
    by blast
  from h(5) handle_conversion_ok[OF h(2,3,4), of t ts] h(6) h(1,2)
  show ?thesis by (auto simp: Let_def)
qed

theorem convert_appends_three_records_witness:
  "fst (add_transaction btc_ledger ''convert'' ''BTC'' 300 2 0 ''SEK'' (Some 7) (Some ''ETH''))
     = Inr ()
   \<and> map tx_action (transactions (snd
        (add_transaction btc_ledger ''convert'' ''BTC'' 300 2 0 ''SEK'' (Some 7) (Some ''ETH''))))
     = [''sell'', ''buy'', ''convert'']
   \<and> map tx_timestamp (transactions (snd
        (add_transaction btc_ledger ''convert'' ''BTC'' 300 2 0 ''SEK'' (Some 7) (Some ''ETH''))))
     = [Some 7, Some 7, Some 7]"
proof -
  have ok: "fst (add_transaction btc_ledger ''convert'' ''BTC'' 300 2 0 ''SEK'' (Some 7)
              (Some ''ETH'')) = Inr ()"
    by (simp add: add_transaction_def handle_conversion_def sell_def buy_def avg_price_def
          btc_ledger_def Let_def)
  then have "add_transaction btc_ledger ''convert'' ''BTC'' 300 2 0 ''SEK'' (Some 7) (Some ''ETH'')
      = (Inr (), snd (add_transaction btc_ledger ''convert'' ''BTC'' 300 2 0 ''SEK'' (Some 7)
           (Some ''ETH'')))"
    by (simp add: prod_eq_iff)
  from convert_appends_three_records[OF this] ok show ?thesis
    by (auto simp: btc_ledger_def)
qed

text \<open>
  The claim as stated fails: the conversion of the specification's scenario, applied to
  an empty audit trail, leaves three records, the third with the action \<^verbatim>\<open>convert\<close>.
\<close>

theorem convert_two_records_counterexample:
  "fst (add_transaction btc_ledger ''convert'' ''BTC'' 300 2 0 ''SEK'' None (Some ''ETH''))
     = Inr ()
   \<and> length (transactions btc_ledger) = 0
   \<and> length (transactions (snd
        (add_transaction btc_ledger ''convert'' ''BTC'' 300 2 0 ''SEK'' None (Some ''ETH'')))) = 3
   \<and> tx_action (transactions (snd
        (add_transaction btc_ledger ''convert'' ''BTC'' 300 2 0 ''SEK'' None (Some ''ETH''))) ! 2)
     = ''convert''"
  by (simp add: add_transaction_def handle_conversion_def sell_def buy_def avg_price_def
        btc_ledger_def Let_def)

subsection \<open>C3: converting from an asset without a position\<close>

text \<open>
  Claim C3 says that a \<^verbatim>\<open>convert\<close> whose source asset has no position raises the
  no-holdings error, leaves the state unchanged and never reaches the division by the
  source's average price. The code does otherwise. \<^verbatim>\<open>add_transaction\<close> creates an
  empty position for the source before it dispatches, so the guard of
  \<^verbatim>\<open>handle_conversion\<close> (lemma \<open>handle_conversion_no_source\<close>) finds a position and
  does not fire; the average price of the empty position is 0, the division raises
  \<^verbatim>\<open>ZeroDivisionError\<close>, and the new empty position stays in the mapping.
\<close>

theorem convert_unseen_source_zero_division:
  assumes "investments self asset = None" and "t \<noteq> []"
  shows "add_transaction self ''convert'' asset price qty fee cur ts (Some t) =
           (Inl ZeroDivisionError,
            self\<lparr>investments := (investments self)(asset \<mapsto> Investment)\<rparr>)"
  using assms
  by (simp add: add_transaction_def handle_conversion_def Investment_def avg_price_def Let_def)

theorem convert_unseen_source_zero_division_witness:
  "investments (Portfolio ''SEK'' :: nat option portfolio) ''BTC'' = None
   \<and> add_transaction (Portfolio ''SEK'') ''convert'' ''BTC'' 300 2 0 ''SEK''
        (None :: nat option) (Some ''ETH'') =
       (Inl ZeroDivisionError,
        (Portfolio ''SEK'')\<lparr>investments := [''BTC'' \<mapsto> Investment]\<rparr>)"
proof -
  have h: "investments (Portfolio ''SEK'' :: nat option portfolio) ''BTC'' = None"
    by (simp add: Portfolio_def)
  have t: "''ETH'' \<noteq> []" by simp
  from convert_unseen_source_zero_division[OF h t, of 300 2 0 "''SEK''" None] h
  show ?thesis by (simp add: Portfolio_def)
qed

subsection \<open>C4: the fee and the loss of the source leg\<close>




subsection \<open>C5 and C6: selling from one position\<close>

text \<open>
  Claim C5. A sale of \<open>qty\<close> units with \<open>0 < qty \<le> quantity\<close> succeeds; it leaves the
  quantity \<open>q0 - qty\<close> and the total cost \<open>c0 - a0 * qty\<close>, where \<open>a0 = c0 / q0\<close> is the
  average price before the sale; it returns \<open>price * qty - fee - a0 * qty\<close> and appends
  exactly that one value to the realized events. The cost removed does not mention the
  sale price.
\<close>

theorem sell_conservation:
  assumes "0 < qty" and "qty \<le> quantity self"
  shows "sell self price qty fee =
           (Inr (price * qty - fee - total_cost self / quantity self * qty),
            self\<lparr>total_cost := total_cost self - total_cost self / quantity self * qty,
                 quantity := quantity self - qty,
                 realized_profit_loss := realized_profit_loss self @
                   [price * qty - fee - total_cost self / quantity self * qty]\<rparr>)"
proof -
  from assms have "quantity self \<noteq> 0" by simp
  then have "avg_price self = total_cost self / quantity self"
    by (rule avg_price_pos)
  with assms show ?thesis
    by (simp add: sell_def Let_def)
qed

theorem sell_conservation_witness:
  "(0::real) < 8 \<and> (8::real) \<le> quantity \<lparr>quantity = 15, total_cost = 1557, realized_profit_loss = []\<rparr>
   \<and> sell \<lparr>quantity = 15, total_cost = 1557, realized_profit_loss = []\<rparr> 120 8 3 =
       (Inr (1266 / 10),
        \<lparr>quantity = 7, total_cost = 7266 / 10, realized_profit_loss = [1266 / 10]\<rparr>)"
  using sell_conservation
    [of 8 "\<lparr>quantity = 15, total_cost = 1557, realized_profit_loss = []\<rparr>" 120 3]
  by simp

text \<open>
  Claim C6. A sale of more than the position holds raises the insufficient-holdings error
  and leaves quantity, total cost and realized events as they were.
\<close>

theorem sell_oversell_rejected:
  assumes "qty > quantity self"
  shows "sell self price qty fee = (Inl InsufficientHoldings, self)"
  using assms by (simp add: sell_def)

theorem sell_oversell_rejected_witness:
  "(10::real) > quantity \<lparr>quantity = 5, total_cost = 500, realized_profit_loss = []\<rparr>
   \<and> sell \<lparr>quantity = 5, total_cost = 500, realized_profit_loss = []\<rparr> 110 10 0 =
       (Inl InsufficientHoldings,
        \<lparr>quantity = 5, total_cost = 500, realized_profit_loss = []\<rparr>)"
  using sell_oversell_rejected
    [of "\<lparr>quantity = 5, total_cost = 500, realized_profit_loss = []\<rparr>" 10 110 0]
  by simp

subsection \<open>C7: deposits\<close>



subsection \<open>C8: a conversion without a target\<close>

text \<open>
  Claim C8, as amended. A \<^verbatim>\<open>convert\<close> raises the missing-conversion-target error
  whenever \<^verbatim>\<open>to_asset\<close> is absent (\<^verbatim>\<open>None\<close>, or the empty string); in that case
  no position that existed is changed and nothing is appended to the audit trail. The
  ledger does not compare \<^verbatim>\<open>to_asset\<close> with the source asset.
\<close>

theorem convert_without_target_rejected:
  assumes "to_asset = None \<or> to_asset = Some ''''"
  shows "\<exists>self'. add_transaction self ''convert'' asset price qty fee cur ts to_asset =
             (Inl MissingConversionTarget, self')
           \<and> transactions self' = transactions self
           \<and> (\<forall>a i. investments self a = Some i \<longrightarrow> investments self' a = Some i)"
  using assms
  by (auto simp: add_transaction_def Let_def split: option.splits)

theorem convert_without_target_rejected_witness:
  "add_transaction btc_ledger ''convert'' ''BTC'' 300 2 0 ''SEK'' None None =
     (Inl MissingConversionTarget, btc_ledger)"
  using convert_without_target_rejected [of None btc_ledger "''BTC''" 300 2 0 "''SEK''" None]
  by (simp add: add_transaction_def btc_ledger_def)

text \<open>
  The claim as stated fails: a conversion of BTC into BTC returns normally, changes the
  BTC position and appends records to the audit trail.
\<close>

theorem convert_to_same_asset_counterexample:
  "fst (add_transaction btc_ledger ''convert'' ''BTC'' 300 2 0 ''SEK'' None (Some ''BTC''))
     = Inr ()
   \<and> investments btc_ledger ''BTC''
     = Some \<lparr>quantity = 1, total_cost = 1000, realized_profit_loss = []\<rparr>
   \<and> investments (snd
        (add_transaction btc_ledger ''convert'' ''BTC'' 300 2 0 ''SEK'' None (Some ''BTC''))) ''BTC''
     = Some \<lparr>quantity = 12 / 5, total_cost = 1000, realized_profit_loss = [0]\<rparr>
   \<and> length (transactions (snd
        (add_transaction btc_ledger ''convert'' ''BTC'' 300 2 0 ''SEK'' None (Some ''BTC'')))) = 3"
  by (simp add: add_transaction_def handle_conversion_def sell_def buy_def avg_price_def
        btc_ledger_def Let_def)

subsection \<open>C9: no position goes negative\<close>

text \<open>
  Claim C9, as amended. Start from a ledger in which every position has a quantity
  \<open>\<ge> 0\<close> (a new portfolio is one) and make any sequence of calls whose quantities are
  strictly positive and whose prices and fees are non-negative. After every call of the
  sequence, whether it returned or raised, the quantity of every position is \<open>\<ge> 0\<close> or
  is NaN: it is never negative. The guards compare with \<^verbatim>\<open>>\<close>, which is false for
  NaN, so they keep every number non-negative and let NaN through.
\<close>

theorem quantity_nonnegative_or_nan:
  assumes "\<forall>a i. investments_f self a = Some i \<longrightarrow> fle (Finite 0) (quantity_f i)"
    and "\<forall>r \<in> set rs. fless (Finite 0) (rq_quantity r) \<and> fle (Finite 0) (rq_price r)
           \<and> fle (Finite 0) (rq_fee r)"
  shows "\<forall>n a i. investments_f (apply_calls self (take n rs)) a = Some i \<longrightarrow>
           fle (Finite 0) (quantity_f i) \<or> quantity_f i = NaN"
proof (intro allI)
  fix n a i
  from assms(2) have "\<forall>r \<in> set (take n rs). fle (Finite 0) (rq_quantity r)"
    by (auto dest: in_set_takeD intro: fless_imp_fle)
  moreover from assms(1) have "\<forall>a i. investments_f self a = Some i \<longrightarrow>
             fle (Finite 0) (quantity_f i) \<or> quantity_f i = NaN"
    by blast
  ultimately have
    "\<forall>a i. investments_f (apply_calls self (take n rs)) a = Some i \<longrightarrow>
       fle (Finite 0) (quantity_f i) \<or> quantity_f i = NaN"
    by (intro apply_calls_quantity)
  then show "investments_f (apply_calls self (take n rs)) a = Some i \<longrightarrow>
       fle (Finite 0) (quantity_f i) \<or> quantity_f i = NaN"
    by blast
qed

theorem quantity_nonnegative_or_nan_witness:
  "list_all (\<lambda>r. fless (Finite 0) (rq_quantity r) \<and> fle (Finite 0) (rq_price r)
               \<and> fle (Finite 0) (rq_fee r)) finite_calls
   \<and> map_option quantity_f
        (investments_f (apply_calls (Portfolio_f ''SEK'') (take 3 finite_calls)) ''BTC'')
       = Some (Finite (3602879701896397 / 9007199254740992))
   \<and> fle (Finite 0) (Finite (3602879701896397 / 9007199254740992))"
proof -
  have h1: "\<forall>a i. investments_f (Portfolio_f ''SEK'' :: nat option portfolio_f) a = Some i
              \<longrightarrow> fle (Finite 0) (quantity_f i)"
    by (simp add: Portfolio_f_def)
  have h2: "\<forall>r \<in> set finite_calls. fless (Finite 0) (rq_quantity r)
              \<and> fle (Finite 0) (rq_price r) \<and> fle (Finite 0) (rq_fee r)"
    unfolding finite_calls_def finite_calls_trace by simp
  have ev: "map_option quantity_f
        (investments_f (apply_calls (Portfolio_f ''SEK'') (take 3 finite_calls)) ''BTC'')
       = Some (Finite (3602879701896397 / 9007199254740992))"
    unfolding finite_calls_def finite_calls_trace
    by (simp add: float_program_defs finite_calls_trace
          del: fadd.simps(1) fmul.simps(1) fdiv.simps(1))
  from quantity_nonnegative_or_nan[OF h1 h2] ev h2 show ?thesis
    by (auto simp: list_all_iff)
qed

text \<open>
  The claim as stated fails. Buying 10 units at \<^verbatim>\<open>1e308\<close> makes the total cost
  infinite; selling 5 of them removes an infinite cost from it and leaves NaN; the average
  price is then NaN, the quantity to sell of a conversion is NaN, both guards are false,
  and the conversion leaves the quantity NaN, which is not \<open>\<ge> 0\<close>.
\<close>

theorem quantity_nan_counterexample:
  "list_all (\<lambda>r. fless (Finite 0) (rq_quantity r) \<and> fle (Finite 0) (rq_price r)
               \<and> fle (Finite 0) (rq_fee r)) overflow_calls
   \<and> map_option quantity_f
        (investments_f (apply_calls (Portfolio_f ''SEK'') overflow_calls) ''BTC'') = Some NaN
   \<and> \<not> fle (Finite 0) NaN"
  unfolding overflow_calls_def overflow_calls_trace
  by (simp add: float_program_defs overflow_calls_trace
        del: fadd.simps(1) fmul.simps(1) fdiv.simps(1))

subsection \<open>C10: the price of a conversion's sell record\<close>

text \<open>
  Claim C10, as amended. The price of the sell record a conversion appends is read from
  the source position after the synthesised sale has changed it, not before. For a
  conversion into an asset other than the source, it is the average price of the position
  the sale leaves; so when such a conversion sells all the source position holds
  (the quantity to sell equals its quantity), the price of the record is 0.
\<close>

theorem conversion_sell_record_price:
  assumes "add_transaction self ''convert'' asset price qty fee cur ts (Some t) = (Inr u, self')"
    and "t \<noteq> asset" and "investments self asset = Some i"
  shows "\<exists>sold. sell i (avg_price i) ((price * qty + fee) / avg_price i) fee
                   = (Inr (- fee), sold)
           \<and> investments self' asset = Some sold
           \<and> tx_action (transactions self' ! length (transactions self)) = ''sell''
           \<and> tx_asset (transactions self' ! length (transactions self)) = asset
           \<and> tx_price (transactions self' ! length (transactions self)) = avg_price sold
           \<and> ((price * qty + fee) / avg_price i = quantity i \<longrightarrow>
                tx_price (transactions self' ! length (transactions self)) = 0)"
proof -
  from add_transaction_convert_returns[OF assms(1)] assms(3) obtain mid where
    h: "avg_price i \<noteq> 0"
       "(price * qty + fee) / avg_price i \<le> quantity i"
       "handle_conversion self asset t qty price fee ts = (Inr (), mid)"
       "self' = mid\<lparr>transactions := transactions mid @
                  [\<lparr>tx_timestamp = ts, tx_action = ''convert'', tx_asset = asset,
                    tx_to_asset = Some (Some t), tx_price = price,
                    tx_quantity = qty, tx_fee = fee,
                    tx_transaction_currency = cur\<rparr>]\<rparr>"
    by auto
  from h(1,2) have s: "sell i (avg_price i) ((price * qty + fee) / avg_price i) fee =
       (Inr (- fee),
        i\<lparr>total_cost := total_cost i - (price * qty + fee),
          quantity := quantity i - (price * qty + fee) / avg_price i,
          realized_profit_loss := realized_profit_loss i @ [- fee]\<rparr>)"
    by (intro sell_at_avg_price) simp_all
  from h(3) handle_conversion_ok[OF assms(3) h(1,2), of t ts] h(4) assms(2)
  show ?thesis
    unfolding s
    by (auto simp: Let_def nth_append avg_price_def)
qed

theorem conversion_sell_record_price_witness:
  "fst (add_transaction btc_ledger ''convert'' ''BTC'' 500 2 0 ''SEK'' None (Some ''ETH''))
     = Inr ()
   \<and> (500 * 2 + 0) / avg_price \<lparr>quantity = 1, total_cost = 1000, realized_profit_loss = []\<rparr>
     = quantity \<lparr>quantity = 1, total_cost = 1000, realized_profit_loss = []\<rparr>
   \<and> tx_price (transactions (snd
        (add_transaction btc_ledger ''convert'' ''BTC'' 500 2 0 ''SEK'' None (Some ''ETH'')))
          ! length (transactions btc_ledger)) = 0"
proof -
  have ok: "fst (add_transaction btc_ledger ''convert'' ''BTC'' 500 2 0 ''SEK'' None
              (Some ''ETH'')) = Inr ()"
    by (simp add: add_transaction_def handle_conversion_def sell_def buy_def avg_price_def
          btc_ledger_def Let_def)
  then have eq: "add_transaction btc_ledger ''convert'' ''BTC'' 500 2 0 ''SEK'' None (Some ''ETH'')
      = (Inr (), snd (add_transaction btc_ledger ''convert'' ''BTC'' 500 2 0 ''SEK'' None
           (Some ''ETH'')))"
    by (simp add: prod_eq_iff)
  have ne: "''ETH'' \<noteq> ''BTC''" by simp
  have src: "investments btc_ledger ''BTC'' =
      Some \<lparr>quantity = 1, total_cost = 1000, realized_profit_loss = []\<rparr>"
    by (simp add: btc_ledger_def)
  have full: "(500 * 2 + 0) / avg_price \<lparr>quantity = 1, total_cost = 1000, realized_profit_loss = []\<rparr>
     = quantity \<lparr>quantity = 1, total_cost = 1000, realized_profit_loss = []\<rparr>"
    by (simp add: avg_price_def)
  from conversion_sell_record_price[OF eq ne src] ok full show ?thesis
    by auto
qed

text \<open>
  The claim as stated fails when the conversion is into the source asset itself: the buy
  of the destination leg changes the same position before the price is read. Converting
  1 BTC (bought for 1000) into 2 BTC at 500 sells all the position holds, and the sell
  record has the price 500.
\<close>

theorem conversion_sell_record_price_counterexample:
  "fst (add_transaction btc_ledger ''convert'' ''BTC'' 500 2 0 ''SEK'' None (Some ''BTC''))
     = Inr ()
   \<and> investments btc_ledger ''BTC''
     = Some \<lparr>quantity = 1, total_cost = 1000, realized_profit_loss = []\<rparr>
   \<and> (500 * 2 + 0) / avg_price \<lparr>quantity = 1, total_cost = 1000, realized_profit_loss = []\<rparr>
     = quantity \<lparr>quantity = 1, total_cost = 1000, realized_profit_loss = []\<rparr>
   \<and> tx_action (transactions (snd
        (add_transaction btc_ledger ''convert'' ''BTC'' 500 2 0 ''SEK'' None (Some ''BTC''))) ! 0)
     = ''sell''
   \<and> tx_price (transactions (snd
        (add_transaction btc_ledger ''convert'' ''BTC'' 500 2 0 ''SEK'' None (Some ''BTC''))) ! 0)
     = 500"
  by (simp add: add_transaction_def handle_conversion_def sell_def buy_def avg_price_def
        btc_ledger_def Let_def)

end
